theory Spec2Isabelle
  imports Complex_Main "HOL-Library.Word"
begin

unbundle bit_operations_syntax

section \<open>Host catalog data consumed by the GPU pre-aggregation planner\<close>

text \<open>
  The planner code of \<^verbatim>\<open>gpu_preagg.c\<close> runs inside a PostgreSQL backend. Object
  identifiers are natural numbers, \<^verbatim>\<open>InvalidOid\<close> is zero. The well-known identifiers
  below have the values of PostgreSQL's catalog headers.
\<close>

type_synonym Oid = nat

definition InvalidOid :: Oid where "InvalidOid = 0"
definition OidIsValid :: "Oid \<Rightarrow> bool" where "OidIsValid objectId = (objectId \<noteq> InvalidOid)"
definition BYTEAOID :: Oid where "BYTEAOID = 17"
definition INT8OID :: Oid where "INT8OID = 20"
definition FLOAT8OID :: Oid where "FLOAT8OID = 701"
definition ANYOID :: Oid where "ANYOID = 2276"
definition PG_CATALOG_NAMESPACE :: Oid where "PG_CATALOG_NAMESPACE = 11"

text \<open>
  Every \<^verbatim>\<open>elog(ERROR, ...)\<close> of the source is a value of \<open>pg_error\<close>; a function that
  can raise returns \<open>pg_error + 'a\<close>. \<open>TRAP_FailedAssertion\<close> is what a failed
  \<^verbatim>\<open>Assert\<close> does in a build with assertion checking.
\<close>

datatype pg_error =
    ERROR_wrong_function_signature string
  | ERROR_schema_does_not_exist string
  | ERROR_cache_lookup_failed_for_type string
  | ERROR_catalog_corruption_not_found string "Oid list"
  | ERROR_catalog_corruption_unknown_action
  | ERROR_partial_function_mismatch string
  | ERROR_final_function_mismatch Oid
  | ERROR_cache_lookup_failed_for_function Oid
  | ERROR_cache_lookup_failed_for_type_oid Oid
  | ERROR_cache_lookup_failed_for_cast Oid Oid
  | ERROR_cast_method_not_supported
  | ERROR_cache_lookup_failed_for_pg_aggregate Oid
  | ERROR_bug_referenced_variable
  | ERROR_bug_catalog_not_consistent
  | ERROR_bug_unexpected_task_kind
  | TRAP_FailedAssertion string
  | UNDEFINED_read_past_end_of_proargtypes

text \<open>The \<^verbatim>\<open>KAGG_ACTION__*\<close> tags used by the static catalog and the target builder.\<close>

datatype kagg_action =
    KAGG_ACTION__VREF
  | KAGG_ACTION__NROWS_ANY
  | KAGG_ACTION__NROWS_COND
  | KAGG_ACTION__PMIN_INT
  | KAGG_ACTION__PMIN_FP
  | KAGG_ACTION__PMAX_INT
  | KAGG_ACTION__PMAX_FP
  | KAGG_ACTION__PSUM_INT
  | KAGG_ACTION__PSUM_FP
  | KAGG_ACTION__PAVG_INT
  | KAGG_ACTION__PAVG_FP
  | KAGG_ACTION__STDDEV
  | KAGG_ACTION__COVAR

record pg_proc =
  proname :: string
  pronamespace :: Oid
  proargtypes :: "Oid list"
  prorettype :: Oid

text \<open>\<^verbatim>\<open>pronargs\<close> and \<^verbatim>\<open>proargtypes.dim1\<close> are both the length of the argument vector.\<close>

definition pronargs :: "pg_proc \<Rightarrow> nat" where
  "pronargs proc = length (proargtypes proc)"

record pg_aggregate =
  aggtransfn :: Oid
  aggfinalfn :: Oid
  aggtranstype :: Oid

datatype coercion_method =
    COERCION_METHOD_FUNCTION
  | COERCION_METHOD_BINARY
  | COERCION_METHOD_INOUT

record pg_cast =
  castfunc :: Oid
  castmethod :: coercion_method

section \<open>The static catalog of supported aggregate functions\<close>

record aggfunc_catalog_t =
  aggfn_signature :: string
  finalfn_signature :: string
  partfn_signature :: string
  partfn_action :: kagg_action
  cat_numeric_aware :: bool

text \<open>
  The array of the source, in its order, without the terminating sentinel:
  the end of the list is the sentinel.
\<close>

definition aggfunc_catalog_array :: "aggfunc_catalog_t list" where
  "aggfunc_catalog_array = [
    \<lparr>aggfn_signature = ''count()'', finalfn_signature = ''s:sum(int8)'',
     partfn_signature = ''s:nrows()'', partfn_action = KAGG_ACTION__NROWS_ANY,
     cat_numeric_aware = False\<rparr>,
    \<lparr>aggfn_signature = ''count(any)'', finalfn_signature = ''s:sum(int8)'',
     partfn_signature = ''s:nrows(any)'', partfn_action = KAGG_ACTION__NROWS_COND,
     cat_numeric_aware = False\<rparr>,
    \<lparr>aggfn_signature = ''min(int1)'', finalfn_signature = ''s:min_i1(bytea)'',
     partfn_signature = ''s:pmin(int1)'', partfn_action = KAGG_ACTION__PMIN_INT,
     cat_numeric_aware = False\<rparr>,
    \<lparr>aggfn_signature = ''min(int2)'', finalfn_signature = ''s:min_i2(bytea)'',
     partfn_signature = ''s:pmin(int2)'', partfn_action = KAGG_ACTION__PMIN_INT,
     cat_numeric_aware = False\<rparr>,
    \<lparr>aggfn_signature = ''min(int4)'', finalfn_signature = ''s:min_i4(bytea)'',
     partfn_signature = ''s:pmin(int4)'', partfn_action = KAGG_ACTION__PMIN_INT,
     cat_numeric_aware = False\<rparr>,
    \<lparr>aggfn_signature = ''min(int8)'', finalfn_signature = ''s:min_i8(bytea)'',
     partfn_signature = ''s:pmin(int8)'', partfn_action = KAGG_ACTION__PMIN_INT,
     cat_numeric_aware = False\<rparr>,
    \<lparr>aggfn_signature = ''min(float2)'', finalfn_signature = ''s:min_f2(bytea)'',
     partfn_signature = ''s:pmin(float4)'', partfn_action = KAGG_ACTION__PMIN_FP,
     cat_numeric_aware = False\<rparr>,
    \<lparr>aggfn_signature = ''min(float4)'', finalfn_signature = ''s:min_f4(bytea)'',
     partfn_signature = ''s:pmin(float4)'', partfn_action = KAGG_ACTION__PMIN_FP,
     cat_numeric_aware = False\<rparr>,
    \<lparr>aggfn_signature = ''min(float8)'', finalfn_signature = ''s:min_f8(bytea)'',
     partfn_signature = ''s:pmin(float8)'', partfn_action = KAGG_ACTION__PMIN_FP,
     cat_numeric_aware = False\<rparr>,
    \<lparr>aggfn_signature = ''min(numeric)'', finalfn_signature = ''s:min_num(bytea)'',
     partfn_signature = ''s:pmin(float8)'', partfn_action = KAGG_ACTION__PMIN_FP,
     cat_numeric_aware = True\<rparr>,
    \<lparr>aggfn_signature = ''min(money)'', finalfn_signature = ''s:min_cash(bytea)'',
     partfn_signature = ''s:pmin(money)'', partfn_action = KAGG_ACTION__PMIN_INT,
     cat_numeric_aware = False\<rparr>,
    \<lparr>aggfn_signature = ''min(date)'', finalfn_signature = ''s:min_date(bytea)'',
     partfn_signature = ''s:pmin(date)'', partfn_action = KAGG_ACTION__PMIN_INT,
     cat_numeric_aware = False\<rparr>,
    \<lparr>aggfn_signature = ''min(time)'', finalfn_signature = ''s:min_time(bytea)'',
     partfn_signature = ''s:pmin(time)'', partfn_action = KAGG_ACTION__PMIN_INT,
     cat_numeric_aware = False\<rparr>,
    \<lparr>aggfn_signature = ''min(timestamp)'', finalfn_signature = ''s:min_ts(bytea)'',
     partfn_signature = ''s:pmin(timestamp)'', partfn_action = KAGG_ACTION__PMIN_INT,
     cat_numeric_aware = False\<rparr>,
    \<lparr>aggfn_signature = ''min(timestamptz)'', finalfn_signature = ''s:min_tstz(bytea)'',
     partfn_signature = ''s:pmin(timestamptz)'', partfn_action = KAGG_ACTION__PMIN_INT,
     cat_numeric_aware = False\<rparr>,
    \<lparr>aggfn_signature = ''max(int1)'', finalfn_signature = ''s:max_i1(bytea)'',
     partfn_signature = ''s:pmax(int1)'', partfn_action = KAGG_ACTION__PMAX_INT,
     cat_numeric_aware = False\<rparr>,
    \<lparr>aggfn_signature = ''max(int2)'', finalfn_signature = ''s:max_i2(bytea)'',
     partfn_signature = ''s:pmax(int2)'', partfn_action = KAGG_ACTION__PMAX_INT,
     cat_numeric_aware = False\<rparr>,
    \<lparr>aggfn_signature = ''max(int4)'', finalfn_signature = ''s:max_i4(bytea)'',
     partfn_signature = ''s:pmax(int4)'', partfn_action = KAGG_ACTION__PMAX_INT,
     cat_numeric_aware = False\<rparr>,
    \<lparr>aggfn_signature = ''max(int8)'', finalfn_signature = ''s:max_i8(bytea)'',
     partfn_signature = ''s:pmax(int8)'', partfn_action = KAGG_ACTION__PMAX_INT,
     cat_numeric_aware = False\<rparr>,
    \<lparr>aggfn_signature = ''max(float2)'', finalfn_signature = ''s:max_f2(bytea)'',
     partfn_signature = ''s:pmax(float4)'', partfn_action = KAGG_ACTION__PMAX_FP,
     cat_numeric_aware = False\<rparr>,
    \<lparr>aggfn_signature = ''max(float4)'', finalfn_signature = ''s:max_f4(bytea)'',
     partfn_signature = ''s:pmax(float4)'', partfn_action = KAGG_ACTION__PMAX_FP,
     cat_numeric_aware = False\<rparr>,
    \<lparr>aggfn_signature = ''max(float8)'', finalfn_signature = ''s:max_f8(bytea)'',
     partfn_signature = ''s:pmax(float8)'', partfn_action = KAGG_ACTION__PMAX_FP,
     cat_numeric_aware = False\<rparr>,
    \<lparr>aggfn_signature = ''max(numeric)'', finalfn_signature = ''s:max_num(bytea)'',
     partfn_signature = ''s:pmax(float8)'', partfn_action = KAGG_ACTION__PMAX_FP,
     cat_numeric_aware = True\<rparr>,
    \<lparr>aggfn_signature = ''max(money)'', finalfn_signature = ''s:max_cash(bytea)'',
     partfn_signature = ''s:pmax(money)'', partfn_action = KAGG_ACTION__PMAX_INT,
     cat_numeric_aware = False\<rparr>,
    \<lparr>aggfn_signature = ''max(date)'', finalfn_signature = ''s:max_date(bytea)'',
     partfn_signature = ''s:pmax(date)'', partfn_action = KAGG_ACTION__PMAX_INT,
     cat_numeric_aware = False\<rparr>,
    \<lparr>aggfn_signature = ''max(time)'', finalfn_signature = ''s:max_time(bytea)'',
     partfn_signature = ''s:pmax(time)'', partfn_action = KAGG_ACTION__PMAX_INT,
     cat_numeric_aware = False\<rparr>,
    \<lparr>aggfn_signature = ''max(timestamp)'', finalfn_signature = ''s:max_ts(bytea)'',
     partfn_signature = ''s:pmax(timestamp)'', partfn_action = KAGG_ACTION__PMAX_INT,
     cat_numeric_aware = False\<rparr>,
    \<lparr>aggfn_signature = ''max(timestamptz)'', finalfn_signature = ''s:max_tstz(bytea)'',
     partfn_signature = ''s:pmax(timestamptz)'', partfn_action = KAGG_ACTION__PMAX_INT,
     cat_numeric_aware = False\<rparr>,
    \<lparr>aggfn_signature = ''sum(int1)'', finalfn_signature = ''s:sum(int8)'',
     partfn_signature = ''s:psum(int8)'', partfn_action = KAGG_ACTION__PSUM_INT,
     cat_numeric_aware = False\<rparr>,
    \<lparr>aggfn_signature = ''sum(int2)'', finalfn_signature = ''s:sum(int8)'',
     partfn_signature = ''s:psum(int8)'', partfn_action = KAGG_ACTION__PSUM_INT,
     cat_numeric_aware = False\<rparr>,
    \<lparr>aggfn_signature = ''sum(int4)'', finalfn_signature = ''s:sum(int8)'',
     partfn_signature = ''s:psum(int8)'', partfn_action = KAGG_ACTION__PSUM_INT,
     cat_numeric_aware = False\<rparr>,
    \<lparr>aggfn_signature = ''sum(int8)'', finalfn_signature = ''c:sum(int8)'',
     partfn_signature = ''s:psum(int8)'', partfn_action = KAGG_ACTION__PSUM_INT,
     cat_numeric_aware = False\<rparr>,
    \<lparr>aggfn_signature = ''sum(float2)'', finalfn_signature = ''c:sum(float8)'',
     partfn_signature = ''s:psum(float4)'', partfn_action = KAGG_ACTION__PSUM_FP,
     cat_numeric_aware = False\<rparr>,
    \<lparr>aggfn_signature = ''sum(float4)'', finalfn_signature = ''s:sum_f4(float8)'',
     partfn_signature = ''s:psum(float4)'', partfn_action = KAGG_ACTION__PSUM_FP,
     cat_numeric_aware = False\<rparr>,
    \<lparr>aggfn_signature = ''sum(float8)'', finalfn_signature = ''c:sum(float8)'',
     partfn_signature = ''s:psum(float8)'', partfn_action = KAGG_ACTION__PSUM_FP,
     cat_numeric_aware = False\<rparr>,
    \<lparr>aggfn_signature = ''sum(numeric)'', finalfn_signature = ''s:sum_num(float8)'',
     partfn_signature = ''s:psum(float8)'', partfn_action = KAGG_ACTION__PSUM_FP,
     cat_numeric_aware = True\<rparr>,
    \<lparr>aggfn_signature = ''sum(money)'', finalfn_signature = ''s:sum_cash(int8)'',
     partfn_signature = ''s:psum(money)'', partfn_action = KAGG_ACTION__PSUM_INT,
     cat_numeric_aware = False\<rparr>,
    \<lparr>aggfn_signature = ''avg(int1)'', finalfn_signature = ''s:avg_int(bytea)'',
     partfn_signature = ''s:pavg(int8)'', partfn_action = KAGG_ACTION__PAVG_INT,
     cat_numeric_aware = False\<rparr>,
    \<lparr>aggfn_signature = ''avg(int2)'', finalfn_signature = ''s:avg_int(bytea)'',
     partfn_signature = ''s:pavg(int8)'', partfn_action = KAGG_ACTION__PAVG_INT,
     cat_numeric_aware = False\<rparr>,
    \<lparr>aggfn_signature = ''avg(int4)'', finalfn_signature = ''s:avg_int(bytea)'',
     partfn_signature = ''s:pavg(int8)'', partfn_action = KAGG_ACTION__PAVG_INT,
     cat_numeric_aware = False\<rparr>,
    \<lparr>aggfn_signature = ''avg(int8)'', finalfn_signature = ''s:avg_int(bytea)'',
     partfn_signature = ''s:pavg(int8)'', partfn_action = KAGG_ACTION__PAVG_INT,
     cat_numeric_aware = False\<rparr>,
    \<lparr>aggfn_signature = ''avg(float2)'', finalfn_signature = ''s:avg_fp(bytea)'',
     partfn_signature = ''s:pavg(float8)'', partfn_action = KAGG_ACTION__PAVG_FP,
     cat_numeric_aware = False\<rparr>,
    \<lparr>aggfn_signature = ''avg(float4)'', finalfn_signature = ''s:avg_fp(bytea)'',
     partfn_signature = ''s:pavg(float8)'', partfn_action = KAGG_ACTION__PAVG_FP,
     cat_numeric_aware = False\<rparr>,
    \<lparr>aggfn_signature = ''avg(float8)'', finalfn_signature = ''s:avg_fp(bytea)'',
     partfn_signature = ''s:pavg(float8)'', partfn_action = KAGG_ACTION__PAVG_FP,
     cat_numeric_aware = False\<rparr>,
    \<lparr>aggfn_signature = ''avg(numeric)'', finalfn_signature = ''s:avg_num(bytea)'',
     partfn_signature = ''s:pavg(float8)'', partfn_action = KAGG_ACTION__PAVG_FP,
     cat_numeric_aware = True\<rparr>,
    \<lparr>aggfn_signature = ''stddev(int1)'', finalfn_signature = ''s:stddev_samp(bytea)'',
     partfn_signature = ''s:pvariance(float8)'', partfn_action = KAGG_ACTION__STDDEV,
     cat_numeric_aware = False\<rparr>,
    \<lparr>aggfn_signature = ''stddev(int2)'', finalfn_signature = ''s:stddev_samp(bytea)'',
     partfn_signature = ''s:pvariance(float8)'', partfn_action = KAGG_ACTION__STDDEV,
     cat_numeric_aware = False\<rparr>,
    \<lparr>aggfn_signature = ''stddev(int4)'', finalfn_signature = ''s:stddev_samp(bytea)'',
     partfn_signature = ''s:pvariance(float8)'', partfn_action = KAGG_ACTION__STDDEV,
     cat_numeric_aware = False\<rparr>,
    \<lparr>aggfn_signature = ''stddev(int8)'', finalfn_signature = ''s:stddev_samp(bytea)'',
     partfn_signature = ''s:pvariance(float8)'', partfn_action = KAGG_ACTION__STDDEV,
     cat_numeric_aware = False\<rparr>,
    \<lparr>aggfn_signature = ''stddev(float2)'', finalfn_signature = ''s:stddev_sampf(bytea)'',
     partfn_signature = ''s:pvariance(float8)'', partfn_action = KAGG_ACTION__STDDEV,
     cat_numeric_aware = False\<rparr>,
    \<lparr>aggfn_signature = ''stddev(float4)'', finalfn_signature = ''s:stddev_sampf(bytea)'',
     partfn_signature = ''s:pvariance(float8)'', partfn_action = KAGG_ACTION__STDDEV,
     cat_numeric_aware = False\<rparr>,
    \<lparr>aggfn_signature = ''stddev(float8)'', finalfn_signature = ''s:stddev_sampf(bytea)'',
     partfn_signature = ''s:pvariance(float8)'', partfn_action = KAGG_ACTION__STDDEV,
     cat_numeric_aware = False\<rparr>,
    \<lparr>aggfn_signature = ''stddev(numeric)'', finalfn_signature = ''s:stddev_samp(bytea)'',
     partfn_signature = ''s:pvariance(float8)'', partfn_action = KAGG_ACTION__STDDEV,
     cat_numeric_aware = True\<rparr>,
    \<lparr>aggfn_signature = ''stddev_samp(int1)'', finalfn_signature = ''s:stddev_samp(bytea)'',
     partfn_signature = ''s:pvariance(float8)'', partfn_action = KAGG_ACTION__STDDEV,
     cat_numeric_aware = False\<rparr>,
    \<lparr>aggfn_signature = ''stddev_samp(int2)'', finalfn_signature = ''s:stddev_samp(bytea)'',
     partfn_signature = ''s:pvariance(float8)'', partfn_action = KAGG_ACTION__STDDEV,
     cat_numeric_aware = False\<rparr>,
    \<lparr>aggfn_signature = ''stddev_samp(int4)'', finalfn_signature = ''s:stddev_samp(bytea)'',
     partfn_signature = ''s:pvariance(float8)'', partfn_action = KAGG_ACTION__STDDEV,
     cat_numeric_aware = False\<rparr>,
    \<lparr>aggfn_signature = ''stddev_samp(int8)'', finalfn_signature = ''s:stddev_samp(bytea)'',
     partfn_signature = ''s:pvariance(float8)'', partfn_action = KAGG_ACTION__STDDEV,
     cat_numeric_aware = False\<rparr>,
    \<lparr>aggfn_signature = ''stddev_samp(float2)'', finalfn_signature = ''s:stddev_sampf(bytea)'',
     partfn_signature = ''s:pvariance(float8)'', partfn_action = KAGG_ACTION__STDDEV,
     cat_numeric_aware = False\<rparr>,
    \<lparr>aggfn_signature = ''stddev_samp(float4)'', finalfn_signature = ''s:stddev_sampf(bytea)'',
     partfn_signature = ''s:pvariance(float8)'', partfn_action = KAGG_ACTION__STDDEV,
     cat_numeric_aware = False\<rparr>,
    \<lparr>aggfn_signature = ''stddev_samp(float8)'', finalfn_signature = ''s:stddev_sampf(bytea)'',
     partfn_signature = ''s:pvariance(float8)'', partfn_action = KAGG_ACTION__STDDEV,
     cat_numeric_aware = False\<rparr>,
    \<lparr>aggfn_signature = ''stddev_samp(numeric)'', finalfn_signature = ''s:stddev_samp(bytea)'',
     partfn_signature = ''s:pvariance(float8)'', partfn_action = KAGG_ACTION__STDDEV,
     cat_numeric_aware = True\<rparr>,
    \<lparr>aggfn_signature = ''stddev_pop(int1)'', finalfn_signature = ''s:stddev_pop(bytea)'',
     partfn_signature = ''s:pvariance(float8)'', partfn_action = KAGG_ACTION__STDDEV,
     cat_numeric_aware = False\<rparr>,
    \<lparr>aggfn_signature = ''stddev_pop(int2)'', finalfn_signature = ''s:stddev_pop(bytea)'',
     partfn_signature = ''s:pvariance(float8)'', partfn_action = KAGG_ACTION__STDDEV,
     cat_numeric_aware = False\<rparr>,
    \<lparr>aggfn_signature = ''stddev_pop(int4)'', finalfn_signature = ''s:stddev_pop(bytea)'',
     partfn_signature = ''s:pvariance(float8)'', partfn_action = KAGG_ACTION__STDDEV,
     cat_numeric_aware = False\<rparr>,
    \<lparr>aggfn_signature = ''stddev_pop(int8)'', finalfn_signature = ''s:stddev_pop(bytea)'',
     partfn_signature = ''s:pvariance(float8)'', partfn_action = KAGG_ACTION__STDDEV,
     cat_numeric_aware = False\<rparr>,
    \<lparr>aggfn_signature = ''stddev_pop(float2)'', finalfn_signature = ''s:stddev_popf(bytea)'',
     partfn_signature = ''s:pvariance(float8)'', partfn_action = KAGG_ACTION__STDDEV,
     cat_numeric_aware = False\<rparr>,
    \<lparr>aggfn_signature = ''stddev_pop(float4)'', finalfn_signature = ''s:stddev_popf(bytea)'',
     partfn_signature = ''s:pvariance(float8)'', partfn_action = KAGG_ACTION__STDDEV,
     cat_numeric_aware = False\<rparr>,
    \<lparr>aggfn_signature = ''stddev_pop(float8)'', finalfn_signature = ''s:stddev_popf(bytea)'',
     partfn_signature = ''s:pvariance(float8)'', partfn_action = KAGG_ACTION__STDDEV,
     cat_numeric_aware = False\<rparr>,
    \<lparr>aggfn_signature = ''stddev_pop(numeric)'', finalfn_signature = ''s:stddev_pop(bytea)'',
     partfn_signature = ''s:pvariance(float8)'', partfn_action = KAGG_ACTION__STDDEV,
     cat_numeric_aware = True\<rparr>,
    \<lparr>aggfn_signature = ''variance(int1)'', finalfn_signature = ''s:var_samp(bytea)'',
     partfn_signature = ''s:pvariance(float8)'', partfn_action = KAGG_ACTION__STDDEV,
     cat_numeric_aware = False\<rparr>,
    \<lparr>aggfn_signature = ''variance(int2)'', finalfn_signature = ''s:var_samp(bytea)'',
     partfn_signature = ''s:pvariance(float8)'', partfn_action = KAGG_ACTION__STDDEV,
     cat_numeric_aware = False\<rparr>,
    \<lparr>aggfn_signature = ''variance(int4)'', finalfn_signature = ''s:var_samp(bytea)'',
     partfn_signature = ''s:pvariance(float8)'', partfn_action = KAGG_ACTION__STDDEV,
     cat_numeric_aware = False\<rparr>,
    \<lparr>aggfn_signature = ''variance(int8)'', finalfn_signature = ''s:var_samp(bytea)'',
     partfn_signature = ''s:pvariance(float8)'', partfn_action = KAGG_ACTION__STDDEV,
     cat_numeric_aware = False\<rparr>,
    \<lparr>aggfn_signature = ''variance(float2)'', finalfn_signature = ''s:var_sampf(bytea)'',
     partfn_signature = ''s:pvariance(float8)'', partfn_action = KAGG_ACTION__STDDEV,
     cat_numeric_aware = False\<rparr>,
    \<lparr>aggfn_signature = ''variance(float4)'', finalfn_signature = ''s:var_sampf(bytea)'',
     partfn_signature = ''s:pvariance(float8)'', partfn_action = KAGG_ACTION__STDDEV,
     cat_numeric_aware = False\<rparr>,
    \<lparr>aggfn_signature = ''variance(float8)'', finalfn_signature = ''s:var_sampf(bytea)'',
     partfn_signature = ''s:pvariance(float8)'', partfn_action = KAGG_ACTION__STDDEV,
     cat_numeric_aware = False\<rparr>,
    \<lparr>aggfn_signature = ''variance(numeric)'', finalfn_signature = ''s:var_samp(bytea)'',
     partfn_signature = ''s:pvariance(float8)'', partfn_action = KAGG_ACTION__STDDEV,
     cat_numeric_aware = True\<rparr>,
    \<lparr>aggfn_signature = ''var_samp(int1)'', finalfn_signature = ''s:var_samp(bytea)'',
     partfn_signature = ''s:pvariance(float8)'', partfn_action = KAGG_ACTION__STDDEV,
     cat_numeric_aware = False\<rparr>,
    \<lparr>aggfn_signature = ''var_samp(int2)'', finalfn_signature = ''s:var_samp(bytea)'',
     partfn_signature = ''s:pvariance(float8)'', partfn_action = KAGG_ACTION__STDDEV,
     cat_numeric_aware = False\<rparr>,
    \<lparr>aggfn_signature = ''var_samp(int4)'', finalfn_signature = ''s:var_samp(bytea)'',
     partfn_signature = ''s:pvariance(float8)'', partfn_action = KAGG_ACTION__STDDEV,
     cat_numeric_aware = False\<rparr>,
    \<lparr>aggfn_signature = ''var_samp(int8)'', finalfn_signature = ''s:var_samp(bytea)'',
     partfn_signature = ''s:pvariance(float8)'', partfn_action = KAGG_ACTION__STDDEV,
     cat_numeric_aware = False\<rparr>,
    \<lparr>aggfn_signature = ''var_samp(float2)'', finalfn_signature = ''s:var_sampf(bytea)'',
     partfn_signature = ''s:pvariance(float8)'', partfn_action = KAGG_ACTION__STDDEV,
     cat_numeric_aware = False\<rparr>,
    \<lparr>aggfn_signature = ''var_samp(float4)'', finalfn_signature = ''s:var_sampf(bytea)'',
     partfn_signature = ''s:pvariance(float8)'', partfn_action = KAGG_ACTION__STDDEV,
     cat_numeric_aware = False\<rparr>,
    \<lparr>aggfn_signature = ''var_samp(float8)'', finalfn_signature = ''s:var_sampf(bytea)'',
     partfn_signature = ''s:pvariance(float8)'', partfn_action = KAGG_ACTION__STDDEV,
     cat_numeric_aware = False\<rparr>,
    \<lparr>aggfn_signature = ''var_samp(numeric)'', finalfn_signature = ''s:var_samp(bytea)'',
     partfn_signature = ''s:pvariance(float8)'', partfn_action = KAGG_ACTION__STDDEV,
     cat_numeric_aware = True\<rparr>,
    \<lparr>aggfn_signature = ''var_pop(int1)'', finalfn_signature = ''s:var_pop(bytea)'',
     partfn_signature = ''s:pvariance(float8)'', partfn_action = KAGG_ACTION__STDDEV,
     cat_numeric_aware = False\<rparr>,
    \<lparr>aggfn_signature = ''var_pop(int2)'', finalfn_signature = ''s:var_pop(bytea)'',
     partfn_signature = ''s:pvariance(float8)'', partfn_action = KAGG_ACTION__STDDEV,
     cat_numeric_aware = False\<rparr>,
    \<lparr>aggfn_signature = ''var_pop(int4)'', finalfn_signature = ''s:var_pop(bytea)'',
     partfn_signature = ''s:pvariance(float8)'', partfn_action = KAGG_ACTION__STDDEV,
     cat_numeric_aware = False\<rparr>,
    \<lparr>aggfn_signature = ''var_pop(int8)'', finalfn_signature = ''s:var_pop(bytea)'',
     partfn_signature = ''s:pvariance(float8)'', partfn_action = KAGG_ACTION__STDDEV,
     cat_numeric_aware = False\<rparr>,
    \<lparr>aggfn_signature = ''var_pop(float2)'', finalfn_signature = ''s:var_popf(bytea)'',
     partfn_signature = ''s:pvariance(float8)'', partfn_action = KAGG_ACTION__STDDEV,
     cat_numeric_aware = False\<rparr>,
    \<lparr>aggfn_signature = ''var_pop(float4)'', finalfn_signature = ''s:var_popf(bytea)'',
     partfn_signature = ''s:pvariance(float8)'', partfn_action = KAGG_ACTION__STDDEV,
     cat_numeric_aware = False\<rparr>,
    \<lparr>aggfn_signature = ''var_pop(float8)'', finalfn_signature = ''s:var_popf(bytea)'',
     partfn_signature = ''s:pvariance(float8)'', partfn_action = KAGG_ACTION__STDDEV,
     cat_numeric_aware = False\<rparr>,
    \<lparr>aggfn_signature = ''var_pop(numeric)'', finalfn_signature = ''s:var_pop(bytea)'',
     partfn_signature = ''s:pvariance(float8)'', partfn_action = KAGG_ACTION__STDDEV,
     cat_numeric_aware = True\<rparr>,
    \<lparr>aggfn_signature = ''corr(float8,float8)'', finalfn_signature = ''s:covar_samp(bytea)'',
     partfn_signature = ''s:pcovar(float8,float8)'', partfn_action = KAGG_ACTION__COVAR,
     cat_numeric_aware = False\<rparr>,
    \<lparr>aggfn_signature = ''covar_samp(float8,float8)'', finalfn_signature = ''s:covar_samp(bytea)'',
     partfn_signature = ''s:pcovar(float8,float8)'', partfn_action = KAGG_ACTION__COVAR,
     cat_numeric_aware = False\<rparr>,
    \<lparr>aggfn_signature = ''covar_pop(float8,float8)'', finalfn_signature = ''s:covar_pop(bytea)'',
     partfn_signature = ''s:pcovar(float8,float8)'', partfn_action = KAGG_ACTION__COVAR,
     cat_numeric_aware = False\<rparr>,
    \<lparr>aggfn_signature = ''regr_avgx(float8,float8)'', finalfn_signature = ''s:regr_avgx(bytea)'',
     partfn_signature = ''s:pcovar(float8,float8)'', partfn_action = KAGG_ACTION__COVAR,
     cat_numeric_aware = False\<rparr>,
    \<lparr>aggfn_signature = ''regr_avgy(float8,float8)'', finalfn_signature = ''s:regr_avgy(bytea)'',
     partfn_signature = ''s:pcovar(float8,float8)'', partfn_action = KAGG_ACTION__COVAR,
     cat_numeric_aware = False\<rparr>,
    \<lparr>aggfn_signature = ''regr_count(float8,float8)'', finalfn_signature = ''s:regr_count(bytea)'',
     partfn_signature = ''s:pcovar(float8,float8)'', partfn_action = KAGG_ACTION__COVAR,
     cat_numeric_aware = False\<rparr>,
    \<lparr>aggfn_signature = ''regr_intercept(float8,float8)'', finalfn_signature = ''s:regr_intercept(bytea)'',
     partfn_signature = ''s:pcovar(float8,float8)'', partfn_action = KAGG_ACTION__COVAR,
     cat_numeric_aware = False\<rparr>,
    \<lparr>aggfn_signature = ''regr_r2(float8,float8)'', finalfn_signature = ''s:regr_r2(bytea)'',
     partfn_signature = ''s:pcovar(float8,float8)'', partfn_action = KAGG_ACTION__COVAR,
     cat_numeric_aware = False\<rparr>,
    \<lparr>aggfn_signature = ''regr_slope(float8,float8)'', finalfn_signature = ''s:regr_slope(bytea)'',
     partfn_signature = ''s:pcovar(float8,float8)'', partfn_action = KAGG_ACTION__COVAR,
     cat_numeric_aware = False\<rparr>,
    \<lparr>aggfn_signature = ''regr_sxx(float8,float8)'', finalfn_signature = ''s:regr_sxx(bytea)'',
     partfn_signature = ''s:pcovar(float8,float8)'', partfn_action = KAGG_ACTION__COVAR,
     cat_numeric_aware = False\<rparr>,
    \<lparr>aggfn_signature = ''regr_sxy(float8,float8)'', finalfn_signature = ''s:regr_sxy(bytea)'',
     partfn_signature = ''s:pcovar(float8,float8)'', partfn_action = KAGG_ACTION__COVAR,
     cat_numeric_aware = False\<rparr>,
    \<lparr>aggfn_signature = ''regr_syy(float8,float8)'', finalfn_signature = ''s:regr_syy(bytea)'',
     partfn_signature = ''s:pcovar(float8,float8)'', partfn_action = KAGG_ACTION__COVAR,
     cat_numeric_aware = False\<rparr>
  ]"

section \<open>The hashed catalog entry and the resolver cache\<close>

record aggfunc_catalog_entry =
  aggfn_oid :: Oid
  final_func_oid :: Oid
  partial_func_oid :: Oid
  partial_func_rettype :: Oid
  partial_func_nargs :: nat
  partial_func_action :: kagg_action
  numeric_aware :: bool
  is_valid_entry :: bool

text \<open>
  The system caches and catalog helpers the resolver calls. A lookup that returns
  \<^verbatim>\<open>InvalidOid\<close> or an invalid tuple in C returns \<open>InvalidOid\<close> or \<open>None\<close> here.
  \<open>hash_enter_uninit\<close> is the content of the memory that \<^verbatim>\<open>hash_search(HASH_ENTER)\<close>
  hands out for a new key: dynahash sets the key and nothing else.
\<close>

record syscache =
  PROCOID :: "Oid \<rightharpoonup> pg_proc"
  AGGFNOID :: "Oid \<rightharpoonup> pg_aggregate"
  CASTSOURCETARGET :: "Oid \<times> Oid \<rightharpoonup> pg_cast"
  TYPENAMENSP :: "string \<times> Oid \<Rightarrow> Oid"
  PROCNAMEARGSNSP :: "string \<times> Oid list \<times> Oid \<Rightarrow> Oid"
  get_namespace_oid :: "string \<rightharpoonup> Oid"
  get_type_name :: "Oid \<rightharpoonup> string"
  hash_enter_uninit :: aggfunc_catalog_entry

text \<open>
  The process-wide state: the hash table pointer (\<open>None\<close> is \<^verbatim>\<open>NULL\<close>) and the
  configuration switch for aggregates over numeric.
\<close>

record globals =
  aggfunc_catalog_htable :: "(Oid \<rightharpoonup> aggfunc_catalog_entry) option"
  pgstrom_enable_numeric_aggfuncs :: bool

definition aggfunc_catalog_htable_invalidator :: "globals \<Rightarrow> globals" where
  "aggfunc_catalog_htable_invalidator g = g\<lparr>aggfunc_catalog_htable := None\<rparr>"

definition get_func_rettype :: "syscache \<Rightarrow> Oid \<Rightarrow> pg_error + Oid" where
  "get_func_rettype sc funcid =
     (case PROCOID sc funcid of
        None \<Rightarrow> Inl (ERROR_cache_lookup_failed_for_function funcid)
      | Some proc \<Rightarrow> Inr (prorettype proc))"

definition get_func_nargs :: "syscache \<Rightarrow> Oid \<Rightarrow> pg_error + nat" where
  "get_func_nargs sc funcid =
     (case PROCOID sc funcid of
        None \<Rightarrow> Inl (ERROR_cache_lookup_failed_for_function funcid)
      | Some proc \<Rightarrow> Inr (pronargs proc))"

text \<open>
  \<^verbatim>\<open>strtok_r(base, ",", &pos)\<close> called until it returns \<^verbatim>\<open>NULL\<close>: the non-empty
  pieces between delimiters. \<open>cur\<close> is the token being read.
\<close>

fun strtok_r :: "char \<Rightarrow> string \<Rightarrow> string \<Rightarrow> string list" where
  "strtok_r d cur [] = (if cur = [] then [] else [cur])"
| "strtok_r d cur (c # cs) =
     (if c = d then (if cur = [] then strtok_r d [] cs else cur # strtok_r d [] cs)
      else strtok_r d (cur @ [c]) cs)"

fun lookup_type_oids :: "syscache \<Rightarrow> string list \<Rightarrow> pg_error + Oid list" where
  "lookup_type_oids sc [] = Inr []"
| "lookup_type_oids sc (tok # toks) =
     (let type_oid = TYPENAMENSP sc (tok, PG_CATALOG_NAMESPACE) in
      if \<not> OidIsValid type_oid then Inl (ERROR_cache_lookup_failed_for_type tok)
      else (case lookup_type_oids sc toks of
              Inl e \<Rightarrow> Inl e
            | Inr oids \<Rightarrow> Inr (type_oid # oids)))"

text \<open>
  \<^verbatim>\<open>__aggfunc_resolve_func_signature\<close>: a signature is \<^verbatim>\<open>c:name(type,...)\<close> for the
  system schema or \<^verbatim>\<open>s:name(type,...)\<close> for the schema \<^verbatim>\<open>pgstrom\<close>. (The source
  collects the argument types in a buffer of 80 identifiers; the signatures of the
  static catalog have at most two.)
\<close>

definition aggfunc_resolve_func_signature :: "syscache \<Rightarrow> string \<Rightarrow> pg_error + Oid" where
  "aggfunc_resolve_func_signature sc signature =
     (case (if take 2 signature = ''c:'' then Inr PG_CATALOG_NAMESPACE
            else if take 2 signature = ''s:'' then
              (case get_namespace_oid sc ''pgstrom'' of
                 None \<Rightarrow> Inl (ERROR_schema_does_not_exist ''pgstrom'')
               | Some nsp \<Rightarrow> Inr nsp)
            else Inl (ERROR_wrong_function_signature signature)) of
        Inl e \<Rightarrow> Inl e
      | Inr fn_namespace \<Rightarrow>
          (let rest = drop 2 signature in
           if CHR ''('' \<notin> set rest then Inl (ERROR_wrong_function_signature signature)
           else
             (let fn_name = takeWhile (\<lambda>c. c \<noteq> CHR ''('') rest;
                  base = tl (dropWhile (\<lambda>c. c \<noteq> CHR ''('') rest)
              in if CHR '')'' \<notin> set base then Inl (ERROR_wrong_function_signature signature)
                 else
                   (case lookup_type_oids sc
                           (strtok_r (CHR '','') [] (takeWhile (\<lambda>c. c \<noteq> CHR '')'') base)) of
                      Inl e \<Rightarrow> Inl e
                    | Inr fn_argtypes \<Rightarrow>
                        (let fn_oid = PROCNAMEARGSNSP sc (fn_name, fn_argtypes, fn_namespace) in
                         if \<not> OidIsValid fn_oid
                         then Inl (ERROR_catalog_corruption_not_found fn_name fn_argtypes)
                         else Inr fn_oid)))))"

text \<open>
  The \<^verbatim>\<open>switch\<close> of \<^verbatim>\<open>__aggfunc_resolve_partial_func\<close>: the return type and the
  number of arguments each action fixes for the partial function
  (\<^verbatim>\<open>func_nargs\<close> starts at 1). \<open>None\<close> is the \<^verbatim>\<open>default\<close> branch.
\<close>

fun partfn_action_expects :: "kagg_action \<Rightarrow> (Oid \<times> nat) option" where
  "partfn_action_expects KAGG_ACTION__NROWS_ANY = Some (INT8OID, 0)"
| "partfn_action_expects KAGG_ACTION__NROWS_COND = Some (INT8OID, 1)"
| "partfn_action_expects KAGG_ACTION__PSUM_INT = Some (INT8OID, 1)"
| "partfn_action_expects KAGG_ACTION__PSUM_FP = Some (FLOAT8OID, 1)"
| "partfn_action_expects KAGG_ACTION__PMIN_INT = Some (BYTEAOID, 1)"
| "partfn_action_expects KAGG_ACTION__PMIN_FP = Some (BYTEAOID, 1)"
| "partfn_action_expects KAGG_ACTION__PMAX_INT = Some (BYTEAOID, 1)"
| "partfn_action_expects KAGG_ACTION__PMAX_FP = Some (BYTEAOID, 1)"
| "partfn_action_expects KAGG_ACTION__PAVG_INT = Some (BYTEAOID, 1)"
| "partfn_action_expects KAGG_ACTION__PAVG_FP = Some (BYTEAOID, 1)"
| "partfn_action_expects KAGG_ACTION__STDDEV = Some (BYTEAOID, 1)"
| "partfn_action_expects KAGG_ACTION__COVAR = Some (BYTEAOID, 2)"
| "partfn_action_expects KAGG_ACTION__VREF = None"

text \<open>
  The two resolvers write into the cache entry as they go, so each returns the entry
  as it stands when the function returns or raises (\<open>Some e\<close> is the error raised).
\<close>

definition aggfunc_resolve_partial_func ::
  "syscache \<Rightarrow> aggfunc_catalog_entry \<Rightarrow> string \<Rightarrow> kagg_action
     \<Rightarrow> pg_error option \<times> aggfunc_catalog_entry" where
  "aggfunc_resolve_partial_func sc entry partfn_sig partfn_act =
     (case aggfunc_resolve_func_signature sc partfn_sig of
        Inl e \<Rightarrow> (Some e, entry)
      | Inr func_oid \<Rightarrow>
          (case partfn_action_expects partfn_act of
             None \<Rightarrow> (Some ERROR_catalog_corruption_unknown_action, entry)
           | Some (type_oid, func_nargs) \<Rightarrow>
               (let entry1 = entry\<lparr>partial_func_oid := func_oid\<rparr> in
                case get_func_rettype sc func_oid of
                  Inl e \<Rightarrow> (Some e, entry1)
                | Inr rettype \<Rightarrow>
                    (let entry2 = entry1\<lparr>partial_func_rettype := rettype\<rparr> in
                     case get_func_nargs sc func_oid of
                       Inl e \<Rightarrow> (Some e, entry2)
                     | Inr nargs \<Rightarrow>
                         (let entry3 = entry2\<lparr>partial_func_nargs := nargs,
                                               partial_func_action := partfn_act\<rparr> in
                          if partial_func_rettype entry3 \<noteq> type_oid \<or>
                             partial_func_nargs entry3 \<noteq> func_nargs
                          then (Some (ERROR_partial_function_mismatch partfn_sig), entry3)
                          else (None, entry3))))))"

definition aggfunc_resolve_final_func ::
  "syscache \<Rightarrow> aggfunc_catalog_entry \<Rightarrow> string \<Rightarrow> Oid
     \<Rightarrow> pg_error option \<times> aggfunc_catalog_entry" where
  "aggfunc_resolve_final_func sc entry finalfn_sig agg_rettype =
     (case aggfunc_resolve_func_signature sc finalfn_sig of
        Inl e \<Rightarrow> (Some e, entry)
      | Inr func_oid \<Rightarrow>
          (case (if AGGFNOID sc func_oid = None
                 then Inl (ERROR_final_function_mismatch func_oid)
                 else (case get_func_rettype sc func_oid of
                         Inl e \<Rightarrow> Inl e
                       | Inr rettype \<Rightarrow>
                           if rettype \<noteq> agg_rettype
                           then Inl (ERROR_final_function_mismatch func_oid)
                           else Inr ())) of
             Inl e \<Rightarrow> (Some e, entry)
           | Inr _ \<Rightarrow>
               (case PROCOID sc func_oid of
                  None \<Rightarrow> (Some (ERROR_cache_lookup_failed_for_function func_oid), entry)
                | Some proc \<Rightarrow>
                    if pronargs proc \<noteq> 1 \<or>
                       length (proargtypes proc) \<noteq> 1 \<or>
                       hd (proargtypes proc) \<noteq> partial_func_rettype entry
                    then (Some (ERROR_final_function_mismatch func_oid), entry)
                    else (None, entry\<lparr>final_func_oid := func_oid\<rparr>))))"

text \<open>
  The body of the \<^verbatim>\<open>PG_TRY\<close> block of \<^verbatim>\<open>aggfunc_catalog_lookup_by_oid\<close>, in three
  pieces: the signature string written into \<^verbatim>\<open>buf\<close>, the scan of the static catalog,
  and the block itself.
\<close>

fun sprintf_argtypes :: "syscache \<Rightarrow> nat \<Rightarrow> Oid list \<Rightarrow> pg_error + string" where
  "sprintf_argtypes sc j [] = Inr []"
| "sprintf_argtypes sc j (type_oid # rest) =
     (case get_type_name sc type_oid of
        None \<Rightarrow> Inl (ERROR_cache_lookup_failed_for_type_oid type_oid)
      | Some type_name \<Rightarrow>
          (case sprintf_argtypes sc (Suc j) rest of
             Inl e \<Rightarrow> Inl e
           | Inr s \<Rightarrow> Inr ((if j > 0 then '','' else []) @ type_name @ s)))"

fun scan_aggfunc_catalog ::
  "syscache \<Rightarrow> pg_proc \<Rightarrow> string \<Rightarrow> aggfunc_catalog_t list \<Rightarrow> aggfunc_catalog_entry
     \<Rightarrow> pg_error option \<times> aggfunc_catalog_entry" where
  "scan_aggfunc_catalog sc proc buf [] entry = (None, entry)"
| "scan_aggfunc_catalog sc proc buf (cat # cats) entry =
     (if buf = aggfn_signature cat then
        (case aggfunc_resolve_partial_func sc entry (partfn_signature cat) (partfn_action cat) of
           (Some e, entry1) \<Rightarrow> (Some e, entry1)
         | (None, entry1) \<Rightarrow>
             (case aggfunc_resolve_final_func sc entry1 (finalfn_signature cat) (prorettype proc) of
                (Some e, entry2) \<Rightarrow> (Some e, entry2)
              | (None, entry2) \<Rightarrow>
                  (None, entry2\<lparr>numeric_aware := cat_numeric_aware cat,
                                is_valid_entry := True\<rparr>)))
      else scan_aggfunc_catalog sc proc buf cats entry)"

definition aggfunc_catalog_populate ::
  "syscache \<Rightarrow> Oid \<Rightarrow> aggfunc_catalog_entry \<Rightarrow> pg_error option \<times> aggfunc_catalog_entry" where
  "aggfunc_catalog_populate sc fn_oid entry =
     (case PROCOID sc fn_oid of
        None \<Rightarrow> (Some (ERROR_cache_lookup_failed_for_function fn_oid), entry)
      | Some proc \<Rightarrow>
          if pronamespace proc = PG_CATALOG_NAMESPACE \<and> pronargs proc \<le> 2 then
            (case sprintf_argtypes sc 0 (proargtypes proc) of
               Inl e \<Rightarrow> (Some e, entry)
             | Inr args \<Rightarrow>
                 scan_aggfunc_catalog sc proc (proname proc @ ''('' @ args @ '')'')
                   aggfunc_catalog_array entry)
          else (None, entry))"

text \<open>The tail of the lookup: what is returned for an entry that is in the table.\<close>

definition aggfunc_catalog_entry_usable ::
  "globals \<Rightarrow> aggfunc_catalog_entry \<Rightarrow> aggfunc_catalog_entry option" where
  "aggfunc_catalog_entry_usable g entry =
     (if \<not> is_valid_entry entry then None
      else if numeric_aware entry \<and> \<not> pgstrom_enable_numeric_aggfuncs g then None
      else Some entry)"

text \<open>
  \<^verbatim>\<open>aggfunc_catalog_lookup_by_oid\<close>. The table is created when the pointer is
  \<^verbatim>\<open>NULL\<close>; \<^verbatim>\<open>HASH_ENTER\<close> puts a new entry in the table before it is filled, and
  \<^verbatim>\<open>PG_CATCH\<close> takes it out again (\<^verbatim>\<open>HASH_REMOVE\<close>) before the error is thrown on.
\<close>

definition aggfunc_catalog_lookup_by_oid ::
  "syscache \<Rightarrow> Oid \<Rightarrow> globals
     \<Rightarrow> (pg_error + aggfunc_catalog_entry option) \<times> globals" where
  "aggfunc_catalog_lookup_by_oid sc fn_oid g =
     (let htable = (case aggfunc_catalog_htable g of None \<Rightarrow> Map.empty | Some h \<Rightarrow> h) in
      case htable fn_oid of
        Some entry \<Rightarrow>
          (Inr (aggfunc_catalog_entry_usable g entry), g\<lparr>aggfunc_catalog_htable := Some htable\<rparr>)
      | None \<Rightarrow>
          (let entry0 = (hash_enter_uninit sc)\<lparr>aggfn_oid := fn_oid, is_valid_entry := False\<rparr>;
               htable1 = htable(fn_oid \<mapsto> entry0)
           in case aggfunc_catalog_populate sc fn_oid entry0 of
                (Some e, entry1) \<Rightarrow>
                  (Inl e, g\<lparr>aggfunc_catalog_htable :=
                              Some ((htable1(fn_oid \<mapsto> entry1))(fn_oid := None))\<rparr>)
              | (None, entry1) \<Rightarrow>
                  (Inr (aggfunc_catalog_entry_usable g entry1),
                   g\<lparr>aggfunc_catalog_htable := Some (htable1(fn_oid \<mapsto> entry1))\<rparr>)))"

section \<open>Expression trees, path targets and paths\<close>

text \<open>
  The node kinds the rewriter distinguishes. \<open>NULL\<close> is the null pointer: the rewriter
  returns it for "no alternative", and PostgreSQL's tree mutator stores whatever the
  callback returns, so it can also stand where a child was. The \<^verbatim>\<open>location\<close> fields
  are left out: nothing here reads them, and \<^verbatim>\<open>equal()\<close> ignores them.
\<close>

datatype coercion_form = COERCE_EXPLICIT_CALL | COERCE_EXPLICIT_CAST | COERCE_IMPLICIT_CAST

datatype agg_split = AGGSPLIT_SIMPLE | AGGSPLIT_INITIAL_SERIAL | AGGSPLIT_FINAL_DESERIAL

datatype bool_expr_type = AND_EXPR | OR_EXPR | NOT_EXPR

record SortGroupClause =
  tleSortGroupRef :: nat
  eqop :: Oid
  sortop :: Oid
  nulls_first :: bool
  hashable :: bool

datatype 'n TargetEntry = TargetEntry (expr: 'n) (resno: nat) (resjunk: bool)

datatype 'n Aggref = Aggref
  (aggfnoid: Oid)
  (aggtype: Oid)
  (aggcollid: Oid)
  (inputcollid: Oid)
  (aggtranstype: Oid)
  (aggargtypes: "Oid list")
  (aggdirectargs: "'n list")
  (args: "'n TargetEntry list")
  (aggorder: "SortGroupClause list")
  (aggdistinct: "SortGroupClause list")
  (aggfilter: 'n)
  (aggstar: bool)
  (aggvariadic: bool)
  (aggkind: char)
  (agglevelsup: nat)
  (aggsplit: agg_split)
  (aggno: int)
  (aggtransno: int)

datatype node =
    NULL
  | T_Var nat int Oid int Oid
  | T_Const Oid int Oid int
  | T_PlaceHolderVar node nat
  | T_Aggref "node Aggref"
  | T_FuncExpr Oid Oid "node list" Oid Oid coercion_form
  | T_RelabelType node Oid int Oid coercion_form
  | T_OpExpr Oid Oid Oid Oid "node list"
  | T_BoolExpr bool_expr_type "node list"
  | T_List "node list"

text \<open>
  The fields, in the order of the constructors: \<open>T_Var varno varattno vartype vartypmod
  varcollid\<close>, \<open>T_Const consttype consttypmod constcollid constvalue\<close>,
  \<open>T_PlaceHolderVar phexpr phid\<close>, \<open>T_FuncExpr funcid funcresulttype args funccollid
  inputcollid funcformat\<close> (the argument order of \<^verbatim>\<open>makeFuncExpr\<close>), \<open>T_RelabelType arg
  resulttype resulttypmod resultcollid relabelformat\<close>, \<open>T_OpExpr opno opresulttype opcollid
  inputcollid args\<close>, \<open>T_BoolExpr boolop args\<close>.
\<close>

definition AGGKIND_NORMAL :: char where "AGGKIND_NORMAL = CHR ''n''"
definition AGGKIND_IS_ORDERED_SET :: "char \<Rightarrow> bool" where
  "AGGKIND_IS_ORDERED_SET kind = (kind \<noteq> AGGKIND_NORMAL)"
definition BOOLOID :: Oid where "BOOLOID = 16"

text \<open>
  \<^verbatim>\<open>exprType\<close>, \<^verbatim>\<open>exprTypmod\<close> and \<^verbatim>\<open>exprCollation\<close> of PostgreSQL on these node
  kinds. (On a list PostgreSQL raises; the code here never asks for the type of one.)
\<close>

fun exprType :: "node \<Rightarrow> Oid" where
  "exprType NULL = InvalidOid"
| "exprType (T_Var varno varattno vartype vartypmod varcollid) = vartype"
| "exprType (T_Const consttype consttypmod constcollid constvalue) = consttype"
| "exprType (T_PlaceHolderVar phexpr phid) = exprType phexpr"
| "exprType (T_Aggref aggref) = aggtype aggref"
| "exprType (T_FuncExpr funcid funcresulttype fargs funccollid finputcollid funcformat) = funcresulttype"
| "exprType (T_RelabelType arg resulttype resulttypmod resultcollid relabelformat) = resulttype"
| "exprType (T_OpExpr opno opresulttype opcollid oinputcollid oargs) = opresulttype"
| "exprType (T_BoolExpr boolop bargs) = BOOLOID"
| "exprType (T_List elems) = InvalidOid"

fun exprTypmod :: "node \<Rightarrow> int" where
  "exprTypmod (T_Var varno varattno vartype vartypmod varcollid) = vartypmod"
| "exprTypmod (T_Const consttype consttypmod constcollid constvalue) = consttypmod"
| "exprTypmod (T_PlaceHolderVar phexpr phid) = exprTypmod phexpr"
| "exprTypmod (T_RelabelType arg resulttype resulttypmod resultcollid relabelformat) = resulttypmod"
| "exprTypmod other = -1"

fun exprCollation :: "node \<Rightarrow> Oid" where
  "exprCollation NULL = InvalidOid"
| "exprCollation (T_Var varno varattno vartype vartypmod varcollid) = varcollid"
| "exprCollation (T_Const consttype consttypmod constcollid constvalue) = constcollid"
| "exprCollation (T_PlaceHolderVar phexpr phid) = exprCollation phexpr"
| "exprCollation (T_Aggref aggref) = aggcollid aggref"
| "exprCollation (T_FuncExpr funcid funcresulttype fargs funccollid finputcollid funcformat) = funccollid"
| "exprCollation (T_RelabelType arg resulttype resulttypmod resultcollid relabelformat) = resultcollid"
| "exprCollation (T_OpExpr opno opresulttype opcollid oinputcollid oargs) = opcollid"
| "exprCollation (T_BoolExpr boolop bargs) = InvalidOid"
| "exprCollation (T_List elems) = InvalidOid"

text \<open>Costs are C doubles in the source; they are real numbers here.\<close>

type_synonym Cost = real

record QualCost =
  startup :: Cost
  per_tuple :: Cost

record PathTarget =
  exprs :: "node list"
  sortgrouprefs :: "nat list option"
  cost :: QualCost
  width :: int

definition create_empty_pathtarget :: PathTarget where
  "create_empty_pathtarget =
     \<lparr>exprs = [], sortgrouprefs = None, cost = \<lparr>startup = 0, per_tuple = 0\<rparr>, width = 0\<rparr>"

text \<open>
  PostgreSQL's \<^verbatim>\<open>add_column_to_pathtarget\<close> appends without looking for a duplicate; the
  array of sort/group references is allocated when the first non-zero one arrives, and
  has one entry for each column from then on. \<^verbatim>\<open>get_pathtarget_sortgroupref\<close> reads
  it, or gives zero when there is no array.
\<close>

definition add_column_to_pathtarget :: "PathTarget \<Rightarrow> node \<Rightarrow> nat \<Rightarrow> PathTarget" where
  "add_column_to_pathtarget target e sortgroupref =
     target\<lparr>exprs := exprs target @ [e],
            sortgrouprefs :=
              (case sortgrouprefs target of
                 Some refs \<Rightarrow> Some (refs @ [sortgroupref])
               | None \<Rightarrow>
                   if sortgroupref \<noteq> 0
                   then Some (replicate (length (exprs target)) 0 @ [sortgroupref])
                   else None)\<rparr>"

definition get_pathtarget_sortgroupref :: "PathTarget \<Rightarrow> nat \<Rightarrow> nat" where
  "get_pathtarget_sortgroupref target colno =
     (case sortgrouprefs target of
        None \<Rightarrow> 0
      | Some refs \<Rightarrow> if colno < length refs then refs ! colno else 0)"

definition get_sortgroupref_clause_noerr ::
  "nat \<Rightarrow> SortGroupClause list \<Rightarrow> SortGroupClause option" where
  "get_sortgroupref_clause_noerr sortref clauses =
     find (\<lambda>cl. tleSortGroupRef cl = sortref) clauses"

definition grouping_is_hashable :: "SortGroupClause list \<Rightarrow> bool" where
  "grouping_is_hashable groupClause = list_all hashable groupClause"

record Query =
  groupClause :: "SortGroupClause list"
  groupingSets :: "node list"
  havingQual :: node

record PlannerInfo =
  parse :: Query
  upper_targets_GROUP_AGG :: PathTarget

record GroupPathExtraData =
  targetList :: "node list"

record AggClauseCosts =
  transCost :: QualCost
  finalCost :: QualCost

text \<open>The fields of \<^verbatim>\<open>pgstromPlanInfo\<close> that this file reads or writes.\<close>

record pgstromPlanInfo =
  pp_task_kind :: "32 word"
  final_cost :: Cost
  groupby_keys :: "node list"
  groupby_actions :: "kagg_action list"
  kvars_depth :: "int list"
  kvars_resno :: "nat list"

datatype RelOptKind =
    RELOPT_BASEREL | RELOPT_JOINREL | RELOPT_OTHER_MEMBER_REL | RELOPT_OTHER_JOINREL
  | RELOPT_UPPER_REL | RELOPT_OTHER_UPPER_REL

datatype path_type = T_SeqScan | T_CustomScan | T_Gather | T_Agg | T_Other

record Path =
  pathtype :: path_type
  parent :: nat
  pathtarget :: PathTarget
  param_info :: "nat option"
  parallel_safe :: bool
  parallel_aware :: bool
  parallel_workers :: int
  rows :: real
  startup_cost :: Cost
  total_cost :: Cost
  pathkeys :: "node list"

record CustomPath =
  path :: Path
  custom_paths :: "Path list"
  custom_private :: "pgstromPlanInfo list"
  methods :: string

text \<open>
  The path under the final aggregation: the custom path itself, or a gather path over
  it. The paths of the grouping relation: the aggregation paths built here, and whatever
  else the planner has put there.
\<close>

datatype part_path = CustomPathNode CustomPath | GatherPathNode Path CustomPath

datatype AggStrategy = AGG_PLAIN | AGG_SORTED | AGG_HASHED | AGG_MIXED

record AggPath =
  agg_path :: Path
  subpath :: part_path
  aggstrategy :: AggStrategy
  agg_aggsplit :: agg_split
  numGroups :: real
  agg_groupClause :: "SortGroupClause list"
  qual :: node

datatype upper_path = AggPathNode AggPath | OtherPathNode Path

record RelOptInfo =
  reloptkind :: RelOptKind
  relid :: nat
  pathlist :: "upper_path list"

definition IS_SIMPLE_REL :: "RelOptInfo \<Rightarrow> bool" where
  "IS_SIMPLE_REL rel =
     (reloptkind rel = RELOPT_BASEREL \<or> reloptkind rel = RELOPT_OTHER_MEMBER_REL)"

record devtype_info =
  type_oid :: Oid
  type_hashfunc :: "nat option"

text \<open>
  What the planner code calls outside this file: PostgreSQL's planner support and the
  other modules of PG-Strom. The \<^verbatim>\<open>DEVKIND__*\<close> masks, the cost settings of the two
  device kinds and \<^verbatim>\<open>work_mem\<close> are parameters too. \<open>USE_ASSERT_CHECKING\<close> says whether
  the build checks \<^verbatim>\<open>Assert\<close>.
\<close>

record planner_env =
  catalog :: syscache
  USE_ASSERT_CHECKING :: bool
  pgstrom_xpu_expression :: "node \<Rightarrow> 32 word \<Rightarrow> node list \<Rightarrow> bool"
  pgstrom_devtype_lookup :: "Oid \<rightharpoonup> devtype_info"
  devtype_lookup_equal_func :: "devtype_info \<Rightarrow> Oid \<Rightarrow> nat option"
  add_function_cost :: "Oid \<Rightarrow> QualCost \<Rightarrow> QualCost"
  pathtarget_cost_width :: "node list \<Rightarrow> QualCost \<times> int"
  DEVKIND__ANY :: "32 word"
  DEVKIND__NVIDIA_GPU :: "32 word"
  DEVKIND__NVIDIA_DPU :: "32 word"
  pgstrom_gpu_operator_cost :: Cost
  pgstrom_gpu_tuple_cost :: Cost
  pgstrom_gpu_operator_ratio :: real
  pgstrom_dpu_operator_cost :: Cost
  pgstrom_dpu_tuple_cost :: Cost
  pgstrom_dpu_operator_ratio :: real
  extract_input_path_params :: "Path \<Rightarrow> pgstromPlanInfo \<times> node list \<times> Path list"
  buildXpuScanPath :: "RelOptInfo \<Rightarrow> bool \<Rightarrow> bool \<Rightarrow> bool \<Rightarrow> 32 word \<Rightarrow> Path option"
  custom_path_find_cheapest :: "RelOptInfo \<Rightarrow> bool \<Rightarrow> 32 word \<Rightarrow> Path option"
  get_sortgrouplist_exprs :: "SortGroupClause list \<Rightarrow> node list \<Rightarrow> node list"
  estimate_num_groups :: "node list \<Rightarrow> real \<Rightarrow> real"
  create_gather_path :: "CustomPath \<Rightarrow> PathTarget \<Rightarrow> real \<Rightarrow> Path"
  create_agg_path_costs ::
    "part_path \<Rightarrow> PathTarget \<Rightarrow> AggStrategy \<Rightarrow> AggClauseCosts \<Rightarrow> real \<Rightarrow> Path"
  add_path :: "upper_path list \<Rightarrow> upper_path \<Rightarrow> upper_path list"
  estimate_hashagg_tablesize :: "part_path \<Rightarrow> AggClauseCosts \<Rightarrow> real \<Rightarrow> real"
  work_mem :: int

definition set_pathtarget_cost_width :: "planner_env \<Rightarrow> PathTarget \<Rightarrow> PathTarget" where
  "set_pathtarget_cost_width env target =
     target\<lparr>cost := fst (pathtarget_cost_width env (exprs target)),
            width := snd (pathtarget_cost_width env (exprs target))\<rparr>"

text \<open>
  PostgreSQL's \<^verbatim>\<open>equal()\<close> compares two trees field by field, but not every field:
  it skips the \<^verbatim>\<open>location\<close> fields (not modelled), the display form of a function
  call or relabelling (\<^verbatim>\<open>funcformat\<close>, \<^verbatim>\<open>relabelformat\<close>), and the transition type
  of an aggregate call (\<^verbatim>\<open>aggtranstype\<close>, "it might not be set yet").
  \<open>equal_ignored_fields\<close> sets the skipped fields to fixed values all through a tree, so
  two trees are \<^verbatim>\<open>equal()\<close> when they agree after that. \<^verbatim>\<open>list_member\<close> looks for an
  element that is \<^verbatim>\<open>equal()\<close> to the given one.
\<close>

definition clear_aggtranstype :: "'n Aggref \<Rightarrow> 'n Aggref" where
  "clear_aggtranstype a =
     Aggref (aggfnoid a) (aggtype a) (aggcollid a) (inputcollid a) InvalidOid (aggargtypes a)
       (aggdirectargs a) (args a) (aggorder a) (aggdistinct a) (aggfilter a) (aggstar a)
       (aggvariadic a) (aggkind a) (agglevelsup a) (aggsplit a) (aggno a) (aggtransno a)"

primrec equal_ignored_fields :: "node \<Rightarrow> node" where
  "equal_ignored_fields NULL = NULL"
| "equal_ignored_fields (T_Var varno varattno vartype vartypmod varcollid) =
     T_Var varno varattno vartype vartypmod varcollid"
| "equal_ignored_fields (T_Const consttype consttypmod constcollid constvalue) =
     T_Const consttype consttypmod constcollid constvalue"
| "equal_ignored_fields (T_PlaceHolderVar phexpr phid) =
     T_PlaceHolderVar (equal_ignored_fields phexpr) phid"
| "equal_ignored_fields (T_Aggref aggref) =
     T_Aggref (clear_aggtranstype (map_Aggref equal_ignored_fields aggref))"
| "equal_ignored_fields (T_FuncExpr funcid funcresulttype fargs funccollid finputcollid funcformat) =
     T_FuncExpr funcid funcresulttype (map equal_ignored_fields fargs) funccollid finputcollid
       COERCE_EXPLICIT_CALL"
| "equal_ignored_fields (T_RelabelType arg resulttype resulttypmod resultcollid relabelformat) =
     T_RelabelType (equal_ignored_fields arg) resulttype resulttypmod resultcollid
       COERCE_EXPLICIT_CALL"
| "equal_ignored_fields (T_OpExpr opno opresulttype opcollid oinputcollid oargs) =
     T_OpExpr opno opresulttype opcollid oinputcollid (map equal_ignored_fields oargs)"
| "equal_ignored_fields (T_BoolExpr boolop bargs) =
     T_BoolExpr boolop (map equal_ignored_fields bargs)"
| "equal_ignored_fields (T_List elems) = T_List (map equal_ignored_fields elems)"

definition pg_equal :: "node \<Rightarrow> node \<Rightarrow> bool" where
  "pg_equal a b = (equal_ignored_fields a = equal_ignored_fields b)"

definition list_member :: "node list \<Rightarrow> node \<Rightarrow> bool" where
  "list_member nodes datum = list_ex (\<lambda>n. pg_equal n datum) nodes"

section \<open>The build context and the rewriter\<close>

record xpugroupby_build_path_context =
  device_executable :: bool
  root :: PlannerInfo
  num_groups :: real
  input_path :: Path
  target_upper :: PathTarget
  target_partial :: PathTarget
  target_final :: PathTarget
  final_clause_costs :: AggClauseCosts
  pp_info :: pgstromPlanInfo
  input_rels_tlist :: "node list"
  inner_paths_list :: "Path list"
  con_havingQual :: node
  task_kind :: "32 word"
  custom_path_methods :: string

text \<open>
  The context points at the grouping relation and at the plan information; the relation
  is passed beside the context where it is written, the plan information is the field
  \<open>pp_info\<close>. A function that changes the context or the resolver cache returns them;
  what it returns or raises comes first.
\<close>

definition make_expr_typecast :: "planner_env \<Rightarrow> node \<Rightarrow> Oid \<Rightarrow> pg_error + node" where
  "make_expr_typecast env e target_type =
     (let source_type = exprType e in
      if target_type = source_type \<or> target_type = ANYOID then Inr e
      else
        (case CASTSOURCETARGET (catalog env) (source_type, target_type) of
           None \<Rightarrow> Inl (ERROR_cache_lookup_failed_for_cast source_type target_type)
         | Some cast \<Rightarrow>
             if castmethod cast = COERCION_METHOD_BINARY then
               Inr (T_RelabelType e target_type (exprTypmod e) (exprCollation e)
                      COERCE_IMPLICIT_CAST)
             else if castmethod cast = COERCION_METHOD_FUNCTION then
               (if USE_ASSERT_CHECKING env \<and> \<not> OidIsValid (castfunc cast)
                then Inl (TRAP_FailedAssertion ''OidIsValid(cast->castfunc)'')
                else Inr (T_FuncExpr (castfunc cast) target_type [e] InvalidOid
                            (exprCollation e) COERCE_IMPLICIT_CAST))
             else Inl ERROR_cast_method_not_supported))"

text \<open>
  The \<^verbatim>\<open>foreach\<close> over the arguments of the aggregate in \<^verbatim>\<open>make_alternative_aggref\<close>:
  \<open>Inr None\<close> is its \<^verbatim>\<open>return NULL\<close>. The second list is what is left of
  \<^verbatim>\<open>proc->proargtypes.values\<close> from index \<^verbatim>\<open>j\<close> on; with more arguments than
  that (which \<^verbatim>\<open>Assert\<close> excludes where it is checked) the source reads past the
  end of the array, which has no defined result.
\<close>

fun make_partfn_args ::
  "planner_env \<Rightarrow> xpugroupby_build_path_context \<Rightarrow> node TargetEntry list \<Rightarrow> Oid list
     \<Rightarrow> pg_error + node list option" where
  "make_partfn_args env con [] dest_oids = Inr (Some [])"
| "make_partfn_args env con (tle # tles) [] = Inl UNDEFINED_read_past_end_of_proargtypes"
| "make_partfn_args env con (tle # tles) (dest_oid # dest_oids) =
     (case (if exprType (expr tle) \<noteq> dest_oid
            then make_expr_typecast env (expr tle) dest_oid
            else Inr (expr tle)) of
        Inl e \<Rightarrow> Inl e
      | Inr e1 \<Rightarrow>
          if \<not> pgstrom_xpu_expression env e1 (task_kind con) (input_rels_tlist con)
          then Inr None
          else
            (case make_partfn_args env con tles dest_oids of
               Inl e \<Rightarrow> Inl e
             | Inr None \<Rightarrow> Inr None
             | Inr (Some partfn_args) \<Rightarrow> Inr (Some (e1 # partfn_args))))"

definition make_alternative_aggref ::
  "planner_env \<Rightarrow> xpugroupby_build_path_context \<Rightarrow> node Aggref \<Rightarrow> globals
     \<Rightarrow> (pg_error + node) \<times> xpugroupby_build_path_context \<times> globals" where
  "make_alternative_aggref env con aggref g =
     (if aggorder aggref \<noteq> [] \<or> aggdistinct aggref \<noteq> [] then (Inr NULL, con, g)
      else if AGGKIND_IS_ORDERED_SET (aggkind aggref) then (Inr NULL, con, g)
      else
        (case aggfunc_catalog_lookup_by_oid (catalog env) (aggfnoid aggref) g of
           (Inl e, g1) \<Rightarrow> (Inl e, con, g1)
         | (Inr None, g1) \<Rightarrow> (Inr NULL, con, g1)
         | (Inr (Some aggfn_cat), g1) \<Rightarrow>
             if USE_ASSERT_CHECKING env \<and>
                \<not> (aggkind aggref = AGGKIND_NORMAL \<and> \<not> aggvariadic aggref)
             then (Inl (TRAP_FailedAssertion
                          ''aggref->aggkind == AGGKIND_NORMAL && !aggref->aggvariadic''),
                   con, g1)
             else
               (case PROCOID (catalog env) (partial_func_oid aggfn_cat) of
                  None \<Rightarrow>
                    (Inl (ERROR_cache_lookup_failed_for_function (partial_func_oid aggfn_cat)),
                     con, g1)
                | Some proc \<Rightarrow>
                    if USE_ASSERT_CHECKING env \<and> length (args aggref) \<noteq> pronargs proc
                    then (Inl (TRAP_FailedAssertion
                                 ''list_length(aggref->args) == proc->pronargs''), con, g1)
                    else
                      (case make_partfn_args env con (args aggref) (proargtypes proc) of
                         Inl e \<Rightarrow> (Inl e, con, g1)
                       | Inr None \<Rightarrow> (Inr NULL, con, g1)
                       | Inr (Some partfn_args) \<Rightarrow>
                           (let partfn = T_FuncExpr (partial_func_oid aggfn_cat)
                                           (partial_func_rettype aggfn_cat) partfn_args
                                           (aggcollid aggref) (inputcollid aggref)
                                           COERCE_EXPLICIT_CALL;
                                con1 =
                                  (if \<not> list_member (exprs (target_partial con)) partfn then
                                     con\<lparr>target_partial :=
                                            add_column_to_pathtarget (target_partial con) partfn 0,
                                         pp_info := (pp_info con)
                                            \<lparr>groupby_actions :=
                                               groupby_actions (pp_info con) @
                                                 [partial_func_action aggfn_cat]\<rparr>\<rparr>
                                   else con);
                                func_oid = final_func_oid aggfn_cat
                            in case AGGFNOID (catalog env) func_oid of
                                 None \<Rightarrow>
                                   (Inl (ERROR_cache_lookup_failed_for_pg_aggregate func_oid),
                                    con1, g1)
                               | Some agg \<Rightarrow>
                                   (let aggref_alt =
                                          Aggref func_oid (aggtype aggref) (aggcollid aggref)
                                            (inputcollid aggref) (pg_aggregate.aggtranstype agg)
                                            [exprType partfn] [] [TargetEntry partfn 1 False]
                                            [] [] NULL False False AGGKIND_NORMAL 0
                                            AGGSPLIT_SIMPLE (aggno aggref) (aggtransno aggref);
                                        costs1 =
                                          (if OidIsValid (aggtransfn agg)
                                           then (final_clause_costs con1)
                                                  \<lparr>transCost := add_function_cost env (aggtransfn agg)
                                                      (transCost (final_clause_costs con1))\<rparr>
                                           else final_clause_costs con1);
                                        costs2 =
                                          (if OidIsValid (aggfinalfn agg)
                                           then costs1
                                                  \<lparr>finalCost := add_function_cost env (aggfinalfn agg)
                                                      (finalCost costs1)\<rparr>
                                           else costs1)
                                    in (Inr (T_Aggref aggref_alt),
                                        con1\<lparr>final_clause_costs := costs2\<rparr>, g1)))))))"

text \<open>
  The \<^verbatim>\<open>foreach\<close> over \<^verbatim>\<open>pp_info->groupby_keys\<close> in
  \<^verbatim>\<open>replace_expression_by_altfunc\<close>: is the node \<^verbatim>\<open>equal()\<close> to a grouping key?
\<close>

definition is_groupby_key :: "xpugroupby_build_path_context \<Rightarrow> node \<Rightarrow> bool" where
  "is_groupby_key con n = list_ex (\<lambda>key. pg_equal n key) (groupby_keys (pp_info con))"

text \<open>
  \<^verbatim>\<open>replace_expression_by_altfunc\<close> with PostgreSQL's \<^verbatim>\<open>expression_tree_mutator\<close>
  unfolded into it, one equation for each kind of node. The tests come in the order of
  the source: the null pointer, an aggregate call, a grouping key (returned as a copy),
  a variable or placeholder that is not a key (an error), and then the mutator, which
  copies the node and puts, for each child, what the callback returns for it, in the
  order of the children (a constant has no child, and is copied whether it is a key or
  not). \<open>replace_expression_list\<close> is the mutator on a list of children.
\<close>

fun replace_expression_by_altfunc ::
  "planner_env \<Rightarrow> node \<Rightarrow> xpugroupby_build_path_context \<Rightarrow> globals
     \<Rightarrow> (pg_error + node) \<times> xpugroupby_build_path_context \<times> globals"
and replace_expression_list ::
  "planner_env \<Rightarrow> node list \<Rightarrow> xpugroupby_build_path_context \<Rightarrow> globals
     \<Rightarrow> (pg_error + node list) \<times> xpugroupby_build_path_context \<times> globals" where
  "replace_expression_by_altfunc env NULL con g = (Inr NULL, con, g)"
| "replace_expression_by_altfunc env (T_Aggref aggref) con g =
     (case make_alternative_aggref env con aggref g of
        (Inl e, con1, g1) \<Rightarrow> (Inl e, con1, g1)
      | (Inr aggfn, con1, g1) \<Rightarrow>
          (Inr aggfn, if aggfn = NULL then con1\<lparr>device_executable := False\<rparr> else con1, g1))"
| "replace_expression_by_altfunc env (T_Var varno varattno vartype vartypmod varcollid) con g =
     (if is_groupby_key con (T_Var varno varattno vartype vartypmod varcollid)
      then (Inr (T_Var varno varattno vartype vartypmod varcollid), con, g)
      else (Inl ERROR_bug_referenced_variable, con, g))"
| "replace_expression_by_altfunc env (T_PlaceHolderVar phexpr phid) con g =
     (if is_groupby_key con (T_PlaceHolderVar phexpr phid)
      then (Inr (T_PlaceHolderVar phexpr phid), con, g)
      else (Inl ERROR_bug_referenced_variable, con, g))"
| "replace_expression_by_altfunc env (T_Const consttype consttypmod constcollid constvalue) con g =
     (Inr (T_Const consttype consttypmod constcollid constvalue), con, g)"
| "replace_expression_by_altfunc env
       (T_FuncExpr funcid funcresulttype fargs funccollid finputcollid funcformat) con g =
     (if is_groupby_key con
           (T_FuncExpr funcid funcresulttype fargs funccollid finputcollid funcformat)
      then (Inr (T_FuncExpr funcid funcresulttype fargs funccollid finputcollid funcformat),
            con, g)
      else
        (case replace_expression_list env fargs con g of
           (Inl e, con1, g1) \<Rightarrow> (Inl e, con1, g1)
         | (Inr fargs1, con1, g1) \<Rightarrow>
             (Inr (T_FuncExpr funcid funcresulttype fargs1 funccollid finputcollid funcformat),
              con1, g1)))"
| "replace_expression_by_altfunc env
       (T_RelabelType arg resulttype resulttypmod resultcollid relabelformat) con g =
     (if is_groupby_key con
           (T_RelabelType arg resulttype resulttypmod resultcollid relabelformat)
      then (Inr (T_RelabelType arg resulttype resulttypmod resultcollid relabelformat), con, g)
      else
        (case replace_expression_by_altfunc env arg con g of
           (Inl e, con1, g1) \<Rightarrow> (Inl e, con1, g1)
         | (Inr arg1, con1, g1) \<Rightarrow>
             (Inr (T_RelabelType arg1 resulttype resulttypmod resultcollid relabelformat),
              con1, g1)))"
| "replace_expression_by_altfunc env
       (T_OpExpr opno opresulttype opcollid oinputcollid oargs) con g =
     (if is_groupby_key con (T_OpExpr opno opresulttype opcollid oinputcollid oargs)
      then (Inr (T_OpExpr opno opresulttype opcollid oinputcollid oargs), con, g)
      else
        (case replace_expression_list env oargs con g of
           (Inl e, con1, g1) \<Rightarrow> (Inl e, con1, g1)
         | (Inr oargs1, con1, g1) \<Rightarrow>
             (Inr (T_OpExpr opno opresulttype opcollid oinputcollid oargs1), con1, g1)))"
| "replace_expression_by_altfunc env (T_BoolExpr boolop bargs) con g =
     (if is_groupby_key con (T_BoolExpr boolop bargs)
      then (Inr (T_BoolExpr boolop bargs), con, g)
      else
        (case replace_expression_list env bargs con g of
           (Inl e, con1, g1) \<Rightarrow> (Inl e, con1, g1)
         | (Inr bargs1, con1, g1) \<Rightarrow> (Inr (T_BoolExpr boolop bargs1), con1, g1)))"
| "replace_expression_by_altfunc env (T_List elems) con g =
     (if is_groupby_key con (T_List elems)
      then (Inr (T_List elems), con, g)
      else
        (case replace_expression_list env elems con g of
           (Inl e, con1, g1) \<Rightarrow> (Inl e, con1, g1)
         | (Inr elems1, con1, g1) \<Rightarrow> (Inr (T_List elems1), con1, g1)))"
| "replace_expression_list env [] con g = (Inr [], con, g)"
| "replace_expression_list env (n # ns) con g =
     (case replace_expression_by_altfunc env n con g of
        (Inl e, con1, g1) \<Rightarrow> (Inl e, con1, g1)
      | (Inr n1, con1, g1) \<Rightarrow>
          (case replace_expression_list env ns con1 g1 of
             (Inl e, con2, g2) \<Rightarrow> (Inl e, con2, g2)
           | (Inr ns1, con2, g2) \<Rightarrow> (Inr (n1 # ns1), con2, g2)))"

section \<open>The target builder\<close>

text \<open>
  The first loop of \<^verbatim>\<open>xpugroupby_build_path_target\<close>, over the columns of the upper
  target from column \<open>i\<close> on. \<open>refno\<close> is the local list \<^verbatim>\<open>groupby_keys_refno\<close>.
  \<open>Inr False\<close> is a \<^verbatim>\<open>return false\<close> inside the loop, \<open>Inr True\<close> the end of the loop.
\<close>

fun build_path_target_columns ::
  "planner_env \<Rightarrow> node list \<Rightarrow> nat \<Rightarrow> xpugroupby_build_path_context \<Rightarrow> nat list \<Rightarrow> globals
     \<Rightarrow> (pg_error + bool) \<times> xpugroupby_build_path_context \<times> nat list \<times> globals" where
  "build_path_target_columns env [] i con refno g = (Inr True, con, refno, g)"
| "build_path_target_columns env (e # es) i con refno g =
     (let sortgroupref = get_pathtarget_sortgroupref (target_upper con) i;
          group_clause = groupClause (parse (root con))
      in
      if sortgroupref \<noteq> 0 \<and> group_clause \<noteq> [] \<and>
         get_sortgroupref_clause_noerr sortgroupref group_clause \<noteq> None
      then
        (case pgstrom_devtype_lookup env (exprType e) of
           None \<Rightarrow> (Inr False, con, refno, g)
         | Some dtype \<Rightarrow>
             if type_hashfunc dtype = None then (Inr False, con, refno, g)
             else if devtype_lookup_equal_func env dtype (exprCollation e) = None
               then (Inr False, con, refno, g)
             else if \<not> pgstrom_xpu_expression env e (task_kind con) (input_rels_tlist con)
               then (Inr False, con, refno, g)
             else
               build_path_target_columns env es (Suc i)
                 (con\<lparr>target_final := add_column_to_pathtarget (target_final con) e sortgroupref,
                      pp_info := (pp_info con)
                        \<lparr>groupby_keys := groupby_keys (pp_info con) @ [e]\<rparr>\<rparr>)
                 (refno @ [sortgroupref]) g)
      else
        (case e of
           T_Aggref aggref \<Rightarrow>
             (case make_alternative_aggref env con aggref g of
                (Inl err, con1, g1) \<Rightarrow> (Inl err, con1, refno, g1)
              | (Inr altfn, con1, g1) \<Rightarrow>
                  if altfn = NULL then (Inr False, con1, refno, g1)
                  else if exprType e \<noteq> exprType altfn
                    then (Inl ERROR_bug_catalog_not_consistent, con1, refno, g1)
                  else
                    build_path_target_columns env es (Suc i)
                      (con1\<lparr>target_final := add_column_to_pathtarget (target_final con1) altfn 0\<rparr>)
                      refno g1)
         | _ \<Rightarrow> (Inr False, con, refno, g)))"

text \<open>
  The second loop (\<^verbatim>\<open>forboth\<close>): the grouping keys go to the partial target, each with
  the action \<^verbatim>\<open>KAGG_ACTION__VREF\<close>. \<open>Some e\<close> is a failed \<^verbatim>\<open>Assert(keyref > 0)\<close>.
\<close>

fun attach_groupby_keys ::
  "planner_env \<Rightarrow> (node \<times> nat) list \<Rightarrow> xpugroupby_build_path_context
     \<Rightarrow> pg_error option \<times> xpugroupby_build_path_context" where
  "attach_groupby_keys env [] con = (None, con)"
| "attach_groupby_keys env ((key, keyref) # rest) con =
     (if USE_ASSERT_CHECKING env \<and> \<not> keyref > 0
      then (Some (TRAP_FailedAssertion ''keyref > 0''), con)
      else
        (let target1 = add_column_to_pathtarget (target_partial con) key keyref in
         attach_groupby_keys env rest
           (con\<lparr>target_partial := target1,
                pp_info := (pp_info con)
                  \<lparr>groupby_actions := groupby_actions (pp_info con) @ [KAGG_ACTION__VREF],
                   kvars_depth := kvars_depth (pp_info con) @ [-1],
                   kvars_resno := kvars_resno (pp_info con) @ [length (exprs target1)]\<rparr>\<rparr>)))"

definition xpugroupby_build_path_target ::
  "planner_env \<Rightarrow> xpugroupby_build_path_context \<Rightarrow> globals
     \<Rightarrow> (pg_error + bool) \<times> xpugroupby_build_path_context \<times> globals" where
  "xpugroupby_build_path_target env con g =
     (case build_path_target_columns env (exprs (target_upper con)) 0 con [] g of
        (Inl e, con1, refno, g1) \<Rightarrow> (Inl e, con1, g1)
      | (Inr False, con1, refno, g1) \<Rightarrow> (Inr False, con1, g1)
      | (Inr True, con1, refno, g1) \<Rightarrow>
          (case attach_groupby_keys env (zip (groupby_keys (pp_info con1)) refno) con1 of
             (Some e, con2) \<Rightarrow> (Inl e, con2, g1)
           | (None, con2) \<Rightarrow>
               (case (if havingQual (parse (root con2)) \<noteq> NULL
                      then replace_expression_by_altfunc env (havingQual (parse (root con2))) con2 g1
                      else (Inr NULL, con2, g1)) of
                  (Inl e, con3, g2) \<Rightarrow> (Inl e, con3, g2)
                | (Inr having, con3, g2) \<Rightarrow>
                    if havingQual (parse (root con2)) \<noteq> NULL \<and> having = NULL
                    then (Inr False, con3, g2)
                    else
                      (Inr True,
                       con3\<lparr>con_havingQual := having,
                            target_final := set_pathtarget_cost_width env (target_final con3),
                            target_partial := set_pathtarget_cost_width env (target_partial con3)\<rparr>,
                       g2))))"

section \<open>The partial path, its cost, and the final paths\<close>

definition prepend_partial_groupby_custompath ::
  "planner_env \<Rightarrow> xpugroupby_build_path_context \<Rightarrow> pg_error + CustomPath" where
  "prepend_partial_groupby_custompath env con =
     (case (if (task_kind con AND DEVKIND__ANY env) = DEVKIND__NVIDIA_GPU env
            then Inr (pgstrom_gpu_operator_cost env, pgstrom_gpu_tuple_cost env,
                      pgstrom_gpu_operator_ratio env)
            else if (task_kind con AND DEVKIND__ANY env) = DEVKIND__NVIDIA_DPU env
            then Inr (pgstrom_dpu_operator_cost env, pgstrom_dpu_tuple_cost env,
                      pgstrom_dpu_operator_ratio env)
            else Inl ERROR_bug_unexpected_task_kind) of
        Inl e \<Rightarrow> Inl e
      | Inr (xpu_operator_cost, xpu_tuple_cost, xpu_ratio) \<Rightarrow>
          (let inp = input_path con;
               startup_cost0 = startup_cost inp;
               run_cost = total_cost inp - startup_cost inp - final_cost (pp_info con);
               num_group_keys = real (length (groupClause (parse (root con))));
               startup_cost1 = startup_cost0 + xpu_operator_cost * num_group_keys * rows inp;
               startup_cost2 = startup_cost1 +
                  (per_tuple (cost (target_partial con)) * rows inp +
                   startup (cost (target_partial con))) * xpu_ratio;
               final_cost0 = xpu_tuple_cost * num_groups con;
               final_cost1 = (if parallel_workers inp > 0
                              then final_cost0 * (0.5 + real_of_int (parallel_workers inp))
                              else final_cost0)
           in Inr \<lparr>path = \<lparr>pathtype = T_CustomScan,
                            parent = parent inp,
                            pathtarget = target_partial con,
                            param_info = param_info inp,
                            parallel_safe = parallel_safe inp,
                            parallel_aware = parallel_aware inp,
                            parallel_workers = parallel_workers inp,
                            rows = num_groups con,
                            startup_cost = startup_cost2,
                            total_cost = startup_cost2 + run_cost + final_cost1,
                            pathkeys = []\<rparr>,
                   custom_paths = inner_paths_list con,
                   custom_private = [pp_info con],
                   methods = custom_path_methods con\<rparr>))"

text \<open>
  PostgreSQL's \<^verbatim>\<open>create_agg_path\<close> keeps what it is given in the new path and computes
  the cost fields; the latter is the parameter \<open>create_agg_path_costs\<close>.
\<close>

definition create_agg_path ::
  "planner_env \<Rightarrow> part_path \<Rightarrow> PathTarget \<Rightarrow> AggStrategy \<Rightarrow> agg_split
     \<Rightarrow> SortGroupClause list \<Rightarrow> node \<Rightarrow> AggClauseCosts \<Rightarrow> real \<Rightarrow> AggPath" where
  "create_agg_path env sub target strategy split group_clause having aggcosts ngroups =
     \<lparr>agg_path = create_agg_path_costs env sub target strategy aggcosts ngroups,
      subpath = sub, aggstrategy = strategy, agg_aggsplit = split, numGroups = ngroups,
      agg_groupClause = group_clause, qual = having\<rparr>"

definition try_add_final_groupby_paths ::
  "planner_env \<Rightarrow> xpugroupby_build_path_context \<Rightarrow> part_path \<Rightarrow> RelOptInfo
     \<Rightarrow> pg_error option \<times> RelOptInfo" where
  "try_add_final_groupby_paths env con part group_rel =
     (let group_clause = groupClause (parse (root con)) in
      if group_clause = [] then
        (None,
         group_rel\<lparr>pathlist := add_path env (pathlist group_rel)
            (AggPathNode (create_agg_path env part (target_final con) AGG_PLAIN AGGSPLIT_SIMPLE
                            group_clause (con_havingQual con) (final_clause_costs con)
                            (num_groups con)))\<rparr>)
      else if USE_ASSERT_CHECKING env \<and> \<not> grouping_is_hashable group_clause then
        (Some (TRAP_FailedAssertion ''grouping_is_hashable(parse->groupClause)''), group_rel)
      else if estimate_hashagg_tablesize env part (final_clause_costs con) (num_groups con)
                \<le> real_of_int (work_mem env) * 1024
      then
        (None,
         group_rel\<lparr>pathlist := add_path env (pathlist group_rel)
            (AggPathNode (create_agg_path env part (target_final con) AGG_HASHED AGGSPLIT_SIMPLE
                            group_clause (con_havingQual con) (final_clause_costs con)
                            (num_groups con)))\<rparr>)
      else (None, group_rel))"

text \<open>
  \<^verbatim>\<open>__xpupreagg_add_custompath\<close>, with its parameters in the order of its declaration:
  \<open>try_parallel\<close> before \<open>ngroups\<close>. The context is set up from the arguments and
  \<^verbatim>\<open>extract_input_path_params\<close>; every other field is zero (\<^verbatim>\<open>memset\<close>).
\<close>

definition xpupreagg_add_custompath_inner ::
  "planner_env \<Rightarrow> PlannerInfo \<Rightarrow> Path \<Rightarrow> RelOptInfo \<Rightarrow> GroupPathExtraData \<Rightarrow> bool \<Rightarrow> real
     \<Rightarrow> 32 word \<Rightarrow> string \<Rightarrow> globals \<Rightarrow> pg_error option \<times> RelOptInfo \<times> globals" where
  "xpupreagg_add_custompath_inner env rt inp group_rel extra try_parallel ngroups kind cmethods g =
     (let con = \<lparr>device_executable = True,
                 root = rt,
                 num_groups = ngroups,
                 input_path = inp,
                 target_upper = upper_targets_GROUP_AGG rt,
                 target_partial = create_empty_pathtarget,
                 target_final = create_empty_pathtarget,
                 final_clause_costs =
                   \<lparr>transCost = \<lparr>startup = 0, per_tuple = 0\<rparr>,
                    finalCost = \<lparr>startup = 0, per_tuple = 0\<rparr>\<rparr>,
                 pp_info = fst (extract_input_path_params env inp),
                 input_rels_tlist = fst (snd (extract_input_path_params env inp)),
                 inner_paths_list = snd (snd (extract_input_path_params env inp)),
                 con_havingQual = NULL,
                 task_kind = kind,
                 custom_path_methods = cmethods\<rparr>
      in case xpugroupby_build_path_target env con g of
           (Inl e, con1, g1) \<Rightarrow> (Some e, group_rel, g1)
         | (Inr False, con1, g1) \<Rightarrow> (None, group_rel, g1)
         | (Inr True, con1, g1) \<Rightarrow>
             (let con2 = con1\<lparr>pp_info := (pp_info con1)\<lparr>pp_task_kind := kind\<rparr>\<rparr> in
              case prepend_partial_groupby_custompath env con2 of
                Inl e \<Rightarrow> (Some e, group_rel, g1)
              | Inr cpath \<Rightarrow>
                  if try_parallel then
                    (if parallel_aware (path cpath) \<and> parallel_workers (path cpath) > 0 then
                       (let total_groups = rows (path cpath) *
                                             real_of_int (parallel_workers (path cpath));
                            gather = GatherPathNode
                                       (create_gather_path env cpath (target_partial con2)
                                          total_groups) cpath
                        in case try_add_final_groupby_paths env con2 gather group_rel of
                             (Some e, rel1) \<Rightarrow> (Some e, rel1, g1)
                           | (None, rel1) \<Rightarrow> (None, rel1, g1))
                     else (None, group_rel, g1))
                  else
                    (case try_add_final_groupby_paths env con2 (CustomPathNode cpath) group_rel of
                       (Some e, rel1) \<Rightarrow> (Some e, rel1, g1)
                     | (None, rel1) \<Rightarrow> (None, rel1, g1))))"

text \<open>
  One round of the loop of \<^verbatim>\<open>xpupreagg_add_custompath\<close> for \<^verbatim>\<open>try_parallel\<close> 0 or 1.
  The call passes \<^verbatim>\<open>num_groups\<close> fifth and \<^verbatim>\<open>(try_parallel > 0)\<close> sixth, as the source
  has them, so C converts the number of groups to the \<^verbatim>\<open>bool\<close> parameter (true when
  it is not zero) and the comparison to the \<^verbatim>\<open>double\<close> parameter (0 or 1).
\<close>

definition xpupreagg_add_custompath_round ::
  "planner_env \<Rightarrow> PlannerInfo \<Rightarrow> RelOptInfo \<Rightarrow> RelOptInfo \<Rightarrow> GroupPathExtraData \<Rightarrow> 32 word
     \<Rightarrow> string \<Rightarrow> nat \<Rightarrow> globals \<Rightarrow> pg_error option \<times> RelOptInfo \<times> globals" where
  "xpupreagg_add_custompath_round env rt input_rel group_rel extra kind cmethods try_parallel g =
     (case (if IS_SIMPLE_REL input_rel
            then buildXpuScanPath env input_rel (try_parallel > 0) False True kind
            else custom_path_find_cheapest env input_rel (try_parallel > 0) kind) of
        None \<Rightarrow> (None, group_rel, g)
      | Some inp \<Rightarrow>
          (let ngroups =
                 (if groupClause (parse rt) \<noteq> []
                  then estimate_num_groups env
                         (get_sortgrouplist_exprs env (groupClause (parse rt)) (targetList extra))
                         (rows inp)
                  else 1)
           in xpupreagg_add_custompath_inner env rt inp group_rel extra
                (ngroups \<noteq> 0) (if try_parallel > 0 then 1 else 0) kind cmethods g))"

definition xpupreagg_add_custompath ::
  "planner_env \<Rightarrow> PlannerInfo \<Rightarrow> RelOptInfo \<Rightarrow> RelOptInfo \<Rightarrow> GroupPathExtraData \<Rightarrow> 32 word
     \<Rightarrow> string \<Rightarrow> globals \<Rightarrow> pg_error option \<times> RelOptInfo \<times> globals" where
  "xpupreagg_add_custompath env rt input_rel group_rel extra kind cmethods g =
     (if groupingSets (parse rt) \<noteq> [] \<or> \<not> grouping_is_hashable (groupClause (parse rt))
      then (None, group_rel, g)
      else
        (case xpupreagg_add_custompath_round env rt input_rel group_rel extra kind cmethods 0 g of
           (Some e, rel1, g1) \<Rightarrow> (Some e, rel1, g1)
         | (None, rel1, g1) \<Rightarrow>
             xpupreagg_add_custompath_round env rt input_rel rel1 extra kind cmethods 1 g1))"

section \<open>A small live catalog and planner setting\<close>

text \<open>
  A concrete host for the closed statements below: the system aggregates
  \<^verbatim>\<open>count(*)\<close> (2803), \<^verbatim>\<open>count("any")\<close> (2147), \<^verbatim>\<open>sum(int4)\<close> (2108),
  \<^verbatim>\<open>sum(numeric)\<close> (2114) and \<^verbatim>\<open>min(int4)\<close> (2132) with PostgreSQL's identifiers, a
  user-defined aggregate \<^verbatim>\<open>public.my_sum(VARIADIC int4[])\<close> (16500, in the schema
  2200), and the functions of the schema \<^verbatim>\<open>pgstrom\<close> (9000) that the static catalog
  names for them. \<^verbatim>\<open>pgstrom.pmin(int4)\<close> is declared with
  the wrong return type (int4 where the action expects bytea), as after a faulty
  upgrade of the extension.
\<close>

definition example_procs :: "(Oid \<times> pg_proc) list" where
  "example_procs = [
     (2803, \<lparr>proname = ''count'', pronamespace = 11, proargtypes = [], prorettype = 20\<rparr>),
     (2147, \<lparr>proname = ''count'', pronamespace = 11, proargtypes = [2276], prorettype = 20\<rparr>),
     (2108, \<lparr>proname = ''sum'', pronamespace = 11, proargtypes = [23], prorettype = 20\<rparr>),
     (2114, \<lparr>proname = ''sum'', pronamespace = 11, proargtypes = [1700], prorettype = 1700\<rparr>),
     (2132, \<lparr>proname = ''min'', pronamespace = 11, proargtypes = [23], prorettype = 23\<rparr>),
     (16500, \<lparr>proname = ''my_sum'', pronamespace = 2200, proargtypes = [1007], prorettype = 20\<rparr>),
     (90001, \<lparr>proname = ''nrows'', pronamespace = 9000, proargtypes = [], prorettype = 20\<rparr>),
     (90002, \<lparr>proname = ''nrows'', pronamespace = 9000, proargtypes = [2276], prorettype = 20\<rparr>),
     (90003, \<lparr>proname = ''psum'', pronamespace = 9000, proargtypes = [20], prorettype = 20\<rparr>),
     (90004, \<lparr>proname = ''sum'', pronamespace = 9000, proargtypes = [20], prorettype = 20\<rparr>),
     (90005, \<lparr>proname = ''psum'', pronamespace = 9000, proargtypes = [701], prorettype = 701\<rparr>),
     (90006, \<lparr>proname = ''sum_num'', pronamespace = 9000, proargtypes = [701], prorettype = 1700\<rparr>),
     (90007, \<lparr>proname = ''pmin'', pronamespace = 9000, proargtypes = [23], prorettype = 23\<rparr>),
     (90008, \<lparr>proname = ''min_i4'', pronamespace = 9000, proargtypes = [17], prorettype = 23\<rparr>)]"

definition example_aggregates :: "(Oid \<times> pg_aggregate) list" where
  "example_aggregates = [
     (2803, \<lparr>aggtransfn = 2804, aggfinalfn = 0, aggtranstype = 20\<rparr>),
     (2147, \<lparr>aggtransfn = 2804, aggfinalfn = 0, aggtranstype = 20\<rparr>),
     (2108, \<lparr>aggtransfn = 1841, aggfinalfn = 0, aggtranstype = 20\<rparr>),
     (2114, \<lparr>aggtransfn = 1833, aggfinalfn = 1837, aggtranstype = 2281\<rparr>),
     (2132, \<lparr>aggtransfn = 768, aggfinalfn = 0, aggtranstype = 23\<rparr>),
     (16500, \<lparr>aggtransfn = 16499, aggfinalfn = 0, aggtranstype = 20\<rparr>),
     (90004, \<lparr>aggtransfn = 90104, aggfinalfn = 0, aggtranstype = 20\<rparr>),
     (90006, \<lparr>aggtransfn = 90106, aggfinalfn = 90206, aggtranstype = 2281\<rparr>),
     (90008, \<lparr>aggtransfn = 90108, aggfinalfn = 90208, aggtranstype = 17\<rparr>)]"

definition example_types :: "(string \<times> Oid) list" where
  "example_types = [(''int4'', 23), (''int8'', 20), (''float8'', 701), (''numeric'', 1700),
                    (''bytea'', 17), (''any'', 2276)]"

definition example_syscache :: syscache where
  "example_syscache =
     \<lparr>PROCOID = map_of example_procs,
      AGGFNOID = map_of example_aggregates,
      CASTSOURCETARGET =
        map_of [((23, 20), \<lparr>castfunc = 481, castmethod = COERCION_METHOD_FUNCTION\<rparr>),
                ((1700, 701), \<lparr>castfunc = 1746, castmethod = COERCION_METHOD_FUNCTION\<rparr>)],
      TYPENAMENSP =
        (\<lambda>(name, nsp). if nsp = 11
                        then (case map_of example_types name of Some t \<Rightarrow> t | None \<Rightarrow> 0)
                        else 0),
      PROCNAMEARGSNSP =
        (\<lambda>(name, argtypes, nsp).
           case find (\<lambda>(fn_oid, proc). proname proc = name \<and> proargtypes proc = argtypes \<and>
                                       pronamespace proc = nsp) example_procs of
             Some (fn_oid, proc) \<Rightarrow> fn_oid
           | None \<Rightarrow> 0),
      get_namespace_oid = map_of [(''pgstrom'', 9000)],
      get_type_name = map_of (map (\<lambda>(name, t). (t, name)) example_types),
      hash_enter_uninit =
        \<lparr>aggfn_oid = 0, final_func_oid = 0, partial_func_oid = 0, partial_func_rettype = 0,
         partial_func_nargs = 0, partial_func_action = KAGG_ACTION__VREF,
         numeric_aware = False, is_valid_entry = False\<rparr>\<rparr>"

definition example_globals :: globals where
  "example_globals = \<lparr>aggfunc_catalog_htable = None, pgstrom_enable_numeric_aggfuncs = True\<rparr>"

text \<open>The entry the resolver builds for \<^verbatim>\<open>sum(numeric)\<close>, and a cache that holds it.\<close>

definition example_sum_numeric_entry :: aggfunc_catalog_entry where
  "example_sum_numeric_entry =
     \<lparr>aggfn_oid = 2114, final_func_oid = 90006, partial_func_oid = 90005,
      partial_func_rettype = 701, partial_func_nargs = 1,
      partial_func_action = KAGG_ACTION__PSUM_FP, numeric_aware = True, is_valid_entry = True\<rparr>"

definition example_globals_cached :: globals where
  "example_globals_cached =
     \<lparr>aggfunc_catalog_htable = Some [2114 \<mapsto> example_sum_numeric_entry],
      pgstrom_enable_numeric_aggfuncs = True\<rparr>"

text \<open>
  Columns \<^verbatim>\<open>x\<close> and \<^verbatim>\<open>k\<close> of type int4 and \<^verbatim>\<open>xs\<close> of type int4[], and aggregate
  calls over them.
\<close>

definition example_var_x :: node where "example_var_x = T_Var 1 1 23 (-1) 0"
definition example_var_k :: node where "example_var_k = T_Var 1 2 23 (-1) 0"
definition example_var_xs :: node where "example_var_xs = T_Var 1 3 1007 (-1) 0"

definition example_count_star :: "node Aggref" where
  "example_count_star =
     Aggref 2803 20 0 0 20 [] [] [] [] [] NULL True False (CHR ''n'') 0 AGGSPLIT_SIMPLE 0 0"

definition example_sum_x :: "node Aggref" where
  "example_sum_x =
     Aggref 2108 20 0 0 20 [23] [] [TargetEntry example_var_x 1 False] [] [] NULL False False
       (CHR ''n'') 0 AGGSPLIT_SIMPLE 1 1"

definition example_sort_clause :: SortGroupClause where
  "example_sort_clause =
     \<lparr>tleSortGroupRef = 1, eqop = 96, sortop = 97, nulls_first = False, hashable = True\<rparr>"

text \<open>
  \<^verbatim>\<open>sum(x ORDER BY k)\<close>, \<^verbatim>\<open>sum(DISTINCT x)\<close>, and \<^verbatim>\<open>my_sum(VARIADIC xs)\<close>, a call
  of the variadic aggregate with its array argument.
\<close>

definition example_sum_x_ordered :: "node Aggref" where
  "example_sum_x_ordered =
     Aggref 2108 20 0 0 20 [23] [] [TargetEntry example_var_x 1 False] [example_sort_clause] []
       NULL False False (CHR ''n'') 0 AGGSPLIT_SIMPLE 1 1"

definition example_sum_x_distinct :: "node Aggref" where
  "example_sum_x_distinct =
     Aggref 2108 20 0 0 20 [23] [] [TargetEntry example_var_x 1 False] [] [example_sort_clause]
       NULL False False (CHR ''n'') 0 AGGSPLIT_SIMPLE 1 1"

definition example_my_sum_variadic :: "node Aggref" where
  "example_my_sum_variadic =
     Aggref 16500 20 0 0 20 [1007] [] [TargetEntry example_var_xs 1 False] [] [] NULL False True
       (CHR ''n'') 0 AGGSPLIT_SIMPLE 1 1"

definition example_input_path :: "bool \<Rightarrow> Path" where
  "example_input_path parallel =
     \<lparr>pathtype = T_CustomScan, parent = 1,
      pathtarget = \<lparr>exprs = [example_var_x, example_var_k], sortgrouprefs = None,
                    cost = \<lparr>startup = 0, per_tuple = 0\<rparr>, width = 8\<rparr>,
      param_info = None, parallel_safe = True, parallel_aware = parallel,
      parallel_workers = (if parallel then 2 else 0),
      rows = 1000, startup_cost = 10, total_cost = 110, pathkeys = []\<rparr>"

definition example_pp_info :: pgstromPlanInfo where
  "example_pp_info =
     \<lparr>pp_task_kind = 0, final_cost = 5, groupby_keys = [], groupby_actions = [],
      kvars_depth = [], kvars_resno = []\<rparr>"

definition example_env :: planner_env where
  "example_env =
     \<lparr>catalog = example_syscache,
      USE_ASSERT_CHECKING = False,
      pgstrom_xpu_expression = (\<lambda>e kind tlist. True),
      pgstrom_devtype_lookup =
        map_of [(23, \<lparr>type_oid = 23, type_hashfunc = Some 1\<rparr>),
                (20, \<lparr>type_oid = 20, type_hashfunc = Some 2\<rparr>)],
      devtype_lookup_equal_func = (\<lambda>dtype coll. Some 3),
      add_function_cost = (\<lambda>funcid c. c\<lparr>per_tuple := per_tuple c + 1\<rparr>),
      pathtarget_cost_width =
        (\<lambda>es. (\<lparr>startup = 0, per_tuple = real (length es)\<rparr>, 8 * int (length es))),
      DEVKIND__ANY = 3,
      DEVKIND__NVIDIA_GPU = 1,
      DEVKIND__NVIDIA_DPU = 2,
      pgstrom_gpu_operator_cost = 1,
      pgstrom_gpu_tuple_cost = 2,
      pgstrom_gpu_operator_ratio = 4,
      pgstrom_dpu_operator_cost = 3,
      pgstrom_dpu_tuple_cost = 6,
      pgstrom_dpu_operator_ratio = 8,
      extract_input_path_params = (\<lambda>p. (example_pp_info, exprs (pathtarget p), [])),
      buildXpuScanPath = (\<lambda>rel parallel allow_host allow_no_device kind.
                            Some (example_input_path parallel)),
      custom_path_find_cheapest = (\<lambda>rel parallel kind. None),
      get_sortgrouplist_exprs = (\<lambda>clauses tlist. tlist),
      estimate_num_groups = (\<lambda>es input_rows. 10),
      create_gather_path =
        (\<lambda>cpath target nrows.
           (path cpath)\<lparr>pathtype := T_Gather, pathtarget := target, parallel_aware := False,
                        parallel_workers := 0, rows := nrows\<rparr>),
      create_agg_path_costs =
        (\<lambda>sub target strategy costs ngroups.
           \<lparr>pathtype = T_Agg, parent = 2, pathtarget = target, param_info = None,
            parallel_safe = False, parallel_aware = False, parallel_workers = 0,
            rows = ngroups, startup_cost = 0, total_cost = 0, pathkeys = []\<rparr>),
      add_path = (\<lambda>paths new_path. paths @ [new_path]),
      estimate_hashagg_tablesize = (\<lambda>sub costs ngroups. ngroups * 100),
      work_mem = 4096\<rparr>"

text \<open>
  The planner information of a query given by its upper target, its grouping clause and
  its HAVING predicate, and the context of a planning attempt for it as
  \<^verbatim>\<open>__xpupreagg_add_custompath\<close> sets it up (here with ten groups estimated).
\<close>

definition example_root :: "PathTarget \<Rightarrow> SortGroupClause list \<Rightarrow> node \<Rightarrow> PlannerInfo" where
  "example_root upper group_clause having =
     \<lparr>parse = \<lparr>groupClause = group_clause, groupingSets = [], havingQual = having\<rparr>,
      upper_targets_GROUP_AGG = upper\<rparr>"

definition example_con ::
  "PathTarget \<Rightarrow> SortGroupClause list \<Rightarrow> node \<Rightarrow> xpugroupby_build_path_context" where
  "example_con upper group_clause having =
     \<lparr>device_executable = True,
      root = example_root upper group_clause having,
      num_groups = 10,
      input_path = example_input_path False,
      target_upper = upper,
      target_partial = create_empty_pathtarget,
      target_final = create_empty_pathtarget,
      final_clause_costs = \<lparr>transCost = \<lparr>startup = 0, per_tuple = 0\<rparr>,
                            finalCost = \<lparr>startup = 0, per_tuple = 0\<rparr>\<rparr>,
      pp_info = example_pp_info,
      input_rels_tlist = [example_var_x, example_var_k],
      inner_paths_list = [],
      con_havingQual = NULL,
      task_kind = 1,
      custom_path_methods = ''GpuPreAgg''\<rparr>"

text \<open>
  \<^verbatim>\<open>SELECT k, count(*) ... GROUP BY k HAVING sum(x) > 10\<close>: the select list has the
  grouping key and one aggregate, the HAVING predicate has an aggregate of its own.
  (The planner hands the HAVING predicate over as the list of its conjuncts.)
\<close>

definition example_upper_key_count :: PathTarget where
  "example_upper_key_count =
     \<lparr>exprs = [example_var_k, T_Aggref example_count_star], sortgrouprefs = Some [1, 0],
      cost = \<lparr>startup = 0, per_tuple = 0\<rparr>, width = 12\<rparr>"

definition example_having_sum :: node where
  "example_having_sum =
     T_List [T_OpExpr 413 16 0 0 [T_Aggref example_sum_x, T_Const 20 (-1) 0 10]]"

text \<open>
  \<^verbatim>\<open>SELECT count(*) ... HAVING sum(x ORDER BY k) > 10\<close>: the aggregate inside the
  HAVING predicate has no alternative.
\<close>

definition example_upper_count :: PathTarget where
  "example_upper_count =
     \<lparr>exprs = [T_Aggref example_count_star], sortgrouprefs = None,
      cost = \<lparr>startup = 0, per_tuple = 0\<rparr>, width = 8\<rparr>"

definition example_having_sum_ordered :: node where
  "example_having_sum_ordered =
     T_List [T_OpExpr 413 16 0 0 [T_Aggref example_sum_x_ordered, T_Const 20 (-1) 0 10]]"

text \<open>
  \<^verbatim>\<open>SELECT count(*) ... HAVING sum(DISTINCT x) > 10\<close> and
  \<^verbatim>\<open>SELECT count(*) ... HAVING my_sum(VARIADIC xs) > 10\<close>.
\<close>

definition example_having_sum_distinct :: node where
  "example_having_sum_distinct =
     T_List [T_OpExpr 413 16 0 0 [T_Aggref example_sum_x_distinct, T_Const 20 (-1) 0 10]]"

definition example_having_my_sum_variadic :: node where
  "example_having_my_sum_variadic =
     T_List [T_OpExpr 413 16 0 0 [T_Aggref example_my_sum_variadic, T_Const 20 (-1) 0 10]]"

definition example_group_rel :: RelOptInfo where
  "example_group_rel = \<lparr>reloptkind = RELOPT_UPPER_REL, relid = 2, pathlist = []\<rparr>"

definition example_input_rel :: RelOptInfo where
  "example_input_rel = \<lparr>reloptkind = RELOPT_BASEREL, relid = 1, pathlist = []\<rparr>"

section \<open>Evaluation of the example catalog and planner setting\<close>

lemma example_syscache_fields:
  "PROCOID example_syscache = map_of example_procs"
  "AGGFNOID example_syscache = map_of example_aggregates"
  "CASTSOURCETARGET example_syscache =
     map_of [((23, 20), \<lparr>castfunc = 481, castmethod = COERCION_METHOD_FUNCTION\<rparr>),
             ((1700, 701), \<lparr>castfunc = 1746, castmethod = COERCION_METHOD_FUNCTION\<rparr>)]"
  "TYPENAMENSP example_syscache (name, nsp) =
     (if nsp = 11 then (case map_of example_types name of Some t \<Rightarrow> t | None \<Rightarrow> 0) else 0)"
  "PROCNAMEARGSNSP example_syscache (name, argtypes, nsp) =
     (case find (\<lambda>(fn_oid, proc). proname proc = name \<and> proargtypes proc = argtypes \<and>
                                 pronamespace proc = nsp) example_procs of
        Some (fn_oid, proc) \<Rightarrow> fn_oid
      | None \<Rightarrow> 0)"
  "get_namespace_oid example_syscache = map_of [(''pgstrom'', 9000)]"
  "get_type_name example_syscache = map_of (map (\<lambda>(name, t). (t, name)) example_types)"
  "hash_enter_uninit example_syscache =
     \<lparr>aggfn_oid = 0, final_func_oid = 0, partial_func_oid = 0, partial_func_rettype = 0,
      partial_func_nargs = 0, partial_func_action = KAGG_ACTION__VREF,
      numeric_aware = False, is_valid_entry = False\<rparr>"
  by (simp_all add: example_syscache_def)

lemmas example_catalog_defs =
  example_syscache_fields example_procs_def example_aggregates_def example_types_def
  OidIsValid_def InvalidOid_def PG_CATALOG_NAMESPACE_def INT8OID_def FLOAT8OID_def
  BYTEAOID_def ANYOID_def pronargs_def get_func_rettype_def get_func_nargs_def

lemma example_resolve_signatures:
  "aggfunc_resolve_func_signature example_syscache ''s:nrows()'' = Inr 90001"
  "aggfunc_resolve_func_signature example_syscache ''s:nrows(any)'' = Inr 90002"
  "aggfunc_resolve_func_signature example_syscache ''s:psum(int8)'' = Inr 90003"
  "aggfunc_resolve_func_signature example_syscache ''s:sum(int8)'' = Inr 90004"
  "aggfunc_resolve_func_signature example_syscache ''s:psum(float8)'' = Inr 90005"
  "aggfunc_resolve_func_signature example_syscache ''s:sum_num(float8)'' = Inr 90006"
  "aggfunc_resolve_func_signature example_syscache ''s:pmin(int4)'' = Inr 90007"
  by (simp_all add: aggfunc_resolve_func_signature_def example_catalog_defs Let_def)

lemma example_populate_count_star:
  "aggfunc_catalog_populate example_syscache 2803 e0 =
     (None, e0\<lparr>partial_func_oid := 90001, partial_func_rettype := 20, partial_func_nargs := 0,
               partial_func_action := KAGG_ACTION__NROWS_ANY, final_func_oid := 90004,
               numeric_aware := False, is_valid_entry := True\<rparr>)"
  by (simp add: aggfunc_catalog_populate_def aggfunc_catalog_array_def
        aggfunc_resolve_partial_func_def aggfunc_resolve_final_func_def
        example_resolve_signatures example_catalog_defs Let_def)

lemma example_populate_sum_int4:
  "aggfunc_catalog_populate example_syscache 2108 e0 =
     (None, e0\<lparr>partial_func_oid := 90003, partial_func_rettype := 20, partial_func_nargs := 1,
               partial_func_action := KAGG_ACTION__PSUM_INT, final_func_oid := 90004,
               numeric_aware := False, is_valid_entry := True\<rparr>)"
  by (simp add: aggfunc_catalog_populate_def aggfunc_catalog_array_def
        aggfunc_resolve_partial_func_def aggfunc_resolve_final_func_def
        example_resolve_signatures example_catalog_defs Let_def)

lemma example_populate_count_any:
  "aggfunc_catalog_populate example_syscache 2147 e0 =
     (None, e0\<lparr>partial_func_oid := 90002, partial_func_rettype := 20, partial_func_nargs := 1,
               partial_func_action := KAGG_ACTION__NROWS_COND, final_func_oid := 90004,
               numeric_aware := False, is_valid_entry := True\<rparr>)"
  by (simp add: aggfunc_catalog_populate_def aggfunc_catalog_array_def
        aggfunc_resolve_partial_func_def aggfunc_resolve_final_func_def
        example_resolve_signatures example_catalog_defs Let_def)

lemma example_populate_sum_numeric:
  "aggfunc_catalog_populate example_syscache 2114 e0 =
     (None, e0\<lparr>partial_func_oid := 90005, partial_func_rettype := 701, partial_func_nargs := 1,
               partial_func_action := KAGG_ACTION__PSUM_FP, final_func_oid := 90006,
               numeric_aware := True, is_valid_entry := True\<rparr>)"
  by (simp add: aggfunc_catalog_populate_def aggfunc_catalog_array_def
        aggfunc_resolve_partial_func_def aggfunc_resolve_final_func_def
        example_resolve_signatures example_catalog_defs Let_def)

lemma example_populate_min_int4:
  "aggfunc_catalog_populate example_syscache 2132 e0 =
     (Some (ERROR_partial_function_mismatch ''s:pmin(int4)''),
      e0\<lparr>partial_func_oid := 90007, partial_func_rettype := 23, partial_func_nargs := 1,
         partial_func_action := KAGG_ACTION__PMIN_INT\<rparr>)"
  by (simp add: aggfunc_catalog_populate_def aggfunc_catalog_array_def
        aggfunc_resolve_partial_func_def aggfunc_resolve_final_func_def
        example_resolve_signatures example_catalog_defs Let_def)

lemma example_populate_my_sum:
  "aggfunc_catalog_populate example_syscache 16500 e0 = (None, e0)"
  by (simp add: aggfunc_catalog_populate_def example_catalog_defs)

lemma example_env_fields:
  "catalog example_env = example_syscache"
  "USE_ASSERT_CHECKING example_env = False"
  "pgstrom_xpu_expression example_env e kind tlist = True"
  "pgstrom_devtype_lookup example_env =
     map_of [(23, \<lparr>type_oid = 23, type_hashfunc = Some 1\<rparr>),
             (20, \<lparr>type_oid = 20, type_hashfunc = Some 2\<rparr>)]"
  "devtype_lookup_equal_func example_env dtype coll = Some 3"
  "add_function_cost example_env funcid c = c\<lparr>per_tuple := per_tuple c + 1\<rparr>"
  "pathtarget_cost_width example_env es =
     (\<lparr>startup = 0, per_tuple = real (length es)\<rparr>, 8 * int (length es))"
  "DEVKIND__ANY example_env = 3"
  "DEVKIND__NVIDIA_GPU example_env = 1"
  "DEVKIND__NVIDIA_DPU example_env = 2"
  "pgstrom_gpu_operator_cost example_env = 1"
  "pgstrom_gpu_tuple_cost example_env = 2"
  "pgstrom_gpu_operator_ratio example_env = 4"
  "pgstrom_dpu_operator_cost example_env = 3"
  "pgstrom_dpu_tuple_cost example_env = 6"
  "pgstrom_dpu_operator_ratio example_env = 8"
  "extract_input_path_params example_env p = (example_pp_info, exprs (pathtarget p), [])"
  "buildXpuScanPath example_env rel parallel allow_host allow_no_device kind =
     Some (example_input_path parallel)"
  "custom_path_find_cheapest example_env rel parallel kind = None"
  "get_sortgrouplist_exprs example_env clauses tlist = tlist"
  "estimate_num_groups example_env es input_rows = 10"
  "create_gather_path example_env cpath target nrows =
     (path cpath)\<lparr>pathtype := T_Gather, pathtarget := target, parallel_aware := False,
                  parallel_workers := 0, rows := nrows\<rparr>"
  "create_agg_path_costs example_env sub target strategy costs ngroups =
     \<lparr>pathtype = T_Agg, parent = 2, pathtarget = target, param_info = None,
      parallel_safe = False, parallel_aware = False, parallel_workers = 0,
      rows = ngroups, startup_cost = 0, total_cost = 0, pathkeys = []\<rparr>"
  "add_path example_env paths new_path = paths @ [new_path]"
  "estimate_hashagg_tablesize example_env sub costs ngroups = ngroups * 100"
  "work_mem example_env = 4096"
  by (simp_all add: example_env_def)

lemmas example_query_defs =
  example_con_def example_root_def example_pp_info_def example_var_x_def example_var_k_def
  example_count_star_def example_sum_x_def example_sum_x_ordered_def
  example_sum_x_distinct_def example_my_sum_variadic_def example_var_xs_def
  example_having_sum_distinct_def example_having_my_sum_variadic_def example_sort_clause_def
  example_upper_key_count_def example_upper_count_def example_having_sum_def
  example_having_sum_ordered_def example_globals_def create_empty_pathtarget_def
  AGGKIND_IS_ORDERED_SET_def AGGKIND_NORMAL_def

lemmas example_lookup_defs =
  aggfunc_catalog_lookup_by_oid_def aggfunc_catalog_entry_usable_def
  example_populate_count_star example_populate_sum_int4 example_populate_count_any
  example_populate_sum_numeric example_populate_min_int4 example_populate_my_sum

lemmas example_builder_defs =
  xpugroupby_build_path_target_def make_alternative_aggref_def make_expr_typecast_def
  add_column_to_pathtarget_def get_pathtarget_sortgroupref_def
  get_sortgroupref_clause_noerr_def set_pathtarget_cost_width_def is_groupby_key_def
  list_member_def pg_equal_def clear_aggtranstype_def
  example_env_fields example_query_defs example_lookup_defs example_catalog_defs Let_def

lemmas example_entry_defs =
  xpupreagg_add_custompath_def xpupreagg_add_custompath_round_def
  xpupreagg_add_custompath_inner_def prepend_partial_groupby_custompath_def
  try_add_final_groupby_paths_def create_agg_path_def grouping_is_hashable_def
  IS_SIMPLE_REL_def example_input_rel_def example_group_rel_def example_input_path_def

section \<open>The resolver: what a cached valid entry has been checked against\<close>

lemma resolve_partial_func_ok:
  assumes "aggfunc_resolve_partial_func sc entry partfn_sig act = (None, entry')"
  shows "\<exists>pf. PROCOID sc (partial_func_oid entry') = Some pf \<and>
              prorettype pf = partial_func_rettype entry' \<and>
              length (proargtypes pf) = partial_func_nargs entry' \<and>
              partfn_action_expects act =
                Some (partial_func_rettype entry', partial_func_nargs entry') \<and>
              partial_func_action entry' = act"
  using assms
  by (auto simp add: aggfunc_resolve_partial_func_def get_func_rettype_def get_func_nargs_def
        pronargs_def Let_def split: sum.splits option.splits if_splits prod.splits)

lemma resolve_final_func_ok:
  assumes "aggfunc_resolve_final_func sc entry finalfn_sig agg_rettype = (None, entry')"
  shows "entry' = entry\<lparr>final_func_oid := final_func_oid entry'\<rparr> \<and>
         AGGFNOID sc (final_func_oid entry') \<noteq> None \<and>
         (\<exists>ff. PROCOID sc (final_func_oid entry') = Some ff \<and>
               proargtypes ff = [partial_func_rettype entry] \<and>
               prorettype ff = agg_rettype)"
  using assms
  apply (simp add: aggfunc_resolve_final_func_def get_func_rettype_def pronargs_def
        split: sum.splits option.splits if_splits)
  apply (auto simp add: length_Suc_conv)
  done

lemma scan_aggfunc_catalog_match:
  assumes "find (\<lambda>cat. aggfn_signature cat = buf) cats = Some cat"
  shows "scan_aggfunc_catalog sc proc buf cats entry = scan_aggfunc_catalog sc proc buf [cat] entry"
  using assms
proof (induction cats)
  case Nil
  then show ?case by simp
next
  case (Cons c cs)
  show ?case
  proof (cases "aggfn_signature c = buf")
    case True
    with Cons.prems have "c = cat" by simp
    with True show ?thesis by simp
  next
    case False
    with Cons.prems have "find (\<lambda>cat. aggfn_signature cat = buf) cs = Some cat" by simp
    from Cons.IH[OF this] False show ?thesis by auto
  qed
qed

lemma find_signature_eq:
  "find (\<lambda>cat. aggfn_signature cat = buf) cats = Some cat \<Longrightarrow> aggfn_signature cat = buf"
  by (induction cats) (auto split: if_splits)

lemma scan_aggfunc_catalog_ok:
  assumes "find (\<lambda>cat. aggfn_signature cat = buf) cats = Some cat"
      and "scan_aggfunc_catalog sc proc buf cats entry = (None, entry')"
  shows "is_valid_entry entry' \<and>
         partial_func_action entry' = partfn_action cat \<and>
         partfn_action_expects (partfn_action cat) =
           Some (partial_func_rettype entry', partial_func_nargs entry') \<and>
         (\<exists>pf. PROCOID sc (partial_func_oid entry') = Some pf \<and>
               prorettype pf = partial_func_rettype entry' \<and>
               length (proargtypes pf) = partial_func_nargs entry') \<and>
         AGGFNOID sc (final_func_oid entry') \<noteq> None \<and>
         (\<exists>ff. PROCOID sc (final_func_oid entry') = Some ff \<and>
               proargtypes ff = [partial_func_rettype entry'] \<and>
               prorettype ff = prorettype proc)"
proof -
  have sig: "aggfn_signature cat = buf" using assms(1) by (rule find_signature_eq)
  have one: "scan_aggfunc_catalog sc proc buf [cat] entry = (None, entry')"
    using scan_aggfunc_catalog_match[OF assms(1)] assms(2) by simp
  obtain r1 e1 where p: "aggfunc_resolve_partial_func sc entry (partfn_signature cat)
                            (partfn_action cat) = (r1, e1)"
    by (cases "aggfunc_resolve_partial_func sc entry (partfn_signature cat) (partfn_action cat)")
  obtain r2 e2 where f: "aggfunc_resolve_final_func sc e1 (finalfn_signature cat)
                            (prorettype proc) = (r2, e2)"
    by (cases "aggfunc_resolve_final_func sc e1 (finalfn_signature cat) (prorettype proc)")
  from one sig p f have r1: "r1 = None" and r2: "r2 = None"
    and e': "entry' = e2\<lparr>numeric_aware := cat_numeric_aware cat, is_valid_entry := True\<rparr>"
    by (auto split: option.splits)
  from resolve_partial_func_ok[OF p[unfolded r1]] obtain pf where
    pf: "PROCOID sc (partial_func_oid e1) = Some pf"
        "prorettype pf = partial_func_rettype e1"
        "length (proargtypes pf) = partial_func_nargs e1"
        "partfn_action_expects (partfn_action cat) =
           Some (partial_func_rettype e1, partial_func_nargs e1)"
        "partial_func_action e1 = partfn_action cat"
    by blast
  from resolve_final_func_ok[OF f[unfolded r2]] obtain ff where
    e2: "e2 = e1\<lparr>final_func_oid := final_func_oid e2\<rparr>" and
    ff: "AGGFNOID sc (final_func_oid e2) \<noteq> None"
        "PROCOID sc (final_func_oid e2) = Some ff"
        "proargtypes ff = [partial_func_rettype e1]"
        "prorettype ff = prorettype proc"
    by blast
  have same: "partial_func_oid e2 = partial_func_oid e1"
             "partial_func_rettype e2 = partial_func_rettype e1"
             "partial_func_nargs e2 = partial_func_nargs e1"
             "partial_func_action e2 = partial_func_action e1"
    by (subst e2, simp)+
  show ?thesis
    using pf ff same by (simp add: e')
qed

lemma partfn_action_expects_table:
  assumes "partfn_action_expects act = Some (rettype, nargs)"
  shows "(act = KAGG_ACTION__NROWS_ANY \<longrightarrow> rettype = INT8OID \<and> nargs = 0) \<and>
         (act \<in> {KAGG_ACTION__NROWS_COND, KAGG_ACTION__PSUM_INT}
            \<longrightarrow> rettype = INT8OID \<and> nargs = 1) \<and>
         (act = KAGG_ACTION__PSUM_FP \<longrightarrow> rettype = FLOAT8OID \<and> nargs = 1) \<and>
         (act \<in> {KAGG_ACTION__PMIN_INT, KAGG_ACTION__PMIN_FP, KAGG_ACTION__PMAX_INT,
                  KAGG_ACTION__PMAX_FP, KAGG_ACTION__PAVG_INT, KAGG_ACTION__PAVG_FP,
                  KAGG_ACTION__STDDEV}
            \<longrightarrow> rettype = BYTEAOID \<and> nargs = 1) \<and>
         (act = KAGG_ACTION__COVAR \<longrightarrow> rettype = BYTEAOID \<and> nargs = 2) \<and>
         act \<noteq> KAGG_ACTION__VREF"
  using assms by (cases act) simp_all

lemma lookup_table_ignores_toggle:
  "aggfunc_catalog_htable (snd (aggfunc_catalog_lookup_by_oid sc fn_oid
        (g\<lparr>pgstrom_enable_numeric_aggfuncs := b\<rparr>)))
   = aggfunc_catalog_htable (snd (aggfunc_catalog_lookup_by_oid sc fn_oid g))"
  by (simp add: aggfunc_catalog_lookup_by_oid_def Let_def split: option.splits prod.splits)

section \<open>The target builder: what it appends to the partial target, and where\<close>

text \<open>
  The partial target only grows at its end, by calls of partial functions from the
  rewriter and by grouping keys from the second loop of the builder, and each append
  comes with one append to the action list.
\<close>

lemma make_alternative_aggref_lockstep:
  assumes "make_alternative_aggref env con aggref g = (r, con', g')"
  shows "length (groupby_actions (pp_info con')) + length (exprs (target_partial con))
           = length (groupby_actions (pp_info con)) + length (exprs (target_partial con'))
         \<and> groupby_keys (pp_info con') = groupby_keys (pp_info con)
         \<and> root con' = root con \<and> target_upper con' = target_upper con"
  using assms
  by (auto simp add: make_alternative_aggref_def add_column_to_pathtarget_def Let_def
        split: if_splits prod.splits sum.splits option.splits)

lemma make_alternative_aggref_appends_call:
  assumes "make_alternative_aggref env con aggref g = (r, con', g')"
  shows "\<exists>new. exprs (target_partial con') = exprs (target_partial con) @ new \<and>
               (\<forall>e \<in> set new. \<exists>funcid rettype fargs coll icoll.
                   e = T_FuncExpr funcid rettype fargs coll icoll COERCE_EXPLICIT_CALL)"
  using assms
  by (auto simp add: make_alternative_aggref_def add_column_to_pathtarget_def Let_def
        split: if_splits prod.splits sum.splits option.splits)

lemma replace_expression_lockstep:
  "replace_expression_by_altfunc env n con g = (r, con', g') \<Longrightarrow>
     length (groupby_actions (pp_info con')) + length (exprs (target_partial con))
       = length (groupby_actions (pp_info con)) + length (exprs (target_partial con'))"
  "replace_expression_list env ns con g = (rs, con', g') \<Longrightarrow>
     length (groupby_actions (pp_info con')) + length (exprs (target_partial con))
       = length (groupby_actions (pp_info con)) + length (exprs (target_partial con'))"
proof (induction env n con g and env ns con g arbitrary: r con' g' and rs con' g'
       rule: replace_expression_by_altfunc_replace_expression_list.induct)
  case (2 env aggref con g)
  obtain r1 con1 g1 where m: "make_alternative_aggref env con aggref g = (r1, con1, g1)"
    by (cases "make_alternative_aggref env con aggref g") auto
  from make_alternative_aggref_lockstep[OF m] "2.prems" m
  show ?case by (auto split: sum.splits if_splits)
next
  case (12 env n ns con g)
  obtain r1 con1 g1 where a: "replace_expression_by_altfunc env n con g = (r1, con1, g1)"
    by (cases "replace_expression_by_altfunc env n con g") auto
  show ?case
  proof (cases r1)
    case (Inl e)
    with "12.prems" a "12.IH"(1)[OF a] show ?thesis by simp
  next
    case (Inr n1)
    obtain r2 con2 g2 where b: "replace_expression_list env ns con1 g1 = (r2, con2, g2)"
      by (cases "replace_expression_list env ns con1 g1") auto
    from "12.IH"(2)[OF a[unfolded Inr, symmetric] refl refl b] "12.IH"(1)[OF a] "12.prems" a Inr b
    show ?thesis by (auto split: sum.splits)
  qed
qed (auto split: if_splits prod.splits sum.splits)

lemma replace_expression_appends_calls:
  "replace_expression_by_altfunc env n con g = (r, con', g') \<Longrightarrow>
     groupby_keys (pp_info con') = groupby_keys (pp_info con) \<and>
     (\<exists>new. exprs (target_partial con') = exprs (target_partial con) @ new \<and>
            (\<forall>e \<in> set new. \<exists>funcid rettype fargs coll icoll.
                e = T_FuncExpr funcid rettype fargs coll icoll COERCE_EXPLICIT_CALL))"
  "replace_expression_list env ns con g = (rs, con', g') \<Longrightarrow>
     groupby_keys (pp_info con') = groupby_keys (pp_info con) \<and>
     (\<exists>new. exprs (target_partial con') = exprs (target_partial con) @ new \<and>
            (\<forall>e \<in> set new. \<exists>funcid rettype fargs coll icoll.
                e = T_FuncExpr funcid rettype fargs coll icoll COERCE_EXPLICIT_CALL))"
proof (induction env n con g and env ns con g arbitrary: r con' g' and rs con' g'
       rule: replace_expression_by_altfunc_replace_expression_list.induct)
  case (2 env aggref con g)
  obtain r1 con1 g1 where m: "make_alternative_aggref env con aggref g = (r1, con1, g1)"
    by (cases "make_alternative_aggref env con aggref g") auto
  from make_alternative_aggref_lockstep[OF m] make_alternative_aggref_appends_call[OF m]
       "2.prems" m
  show ?case by (auto split: sum.splits if_splits)
next
  case (12 env n ns con g)
  obtain r1 con1 g1 where a: "replace_expression_by_altfunc env n con g = (r1, con1, g1)"
    by (cases "replace_expression_by_altfunc env n con g") auto
  from "12.IH"(1)[OF a] obtain new1 where
    s1: "groupby_keys (pp_info con1) = groupby_keys (pp_info con)"
        "exprs (target_partial con1) = exprs (target_partial con) @ new1"
        "\<forall>e \<in> set new1. \<exists>funcid rettype fargs coll icoll.
            e = T_FuncExpr funcid rettype fargs coll icoll COERCE_EXPLICIT_CALL"
    by blast
  show ?case
  proof (cases r1)
    case (Inl e)
    with "12.prems" a have "con' = con1" by simp
    with s1 show ?thesis by blast
  next
    case (Inr n1)
    obtain r2 con2 g2 where b: "replace_expression_list env ns con1 g1 = (r2, con2, g2)"
      by (cases "replace_expression_list env ns con1 g1") auto
    from "12.IH"(2)[OF a[unfolded Inr, symmetric] refl refl b] obtain new2 where
      s2: "groupby_keys (pp_info con2) = groupby_keys (pp_info con1)"
          "exprs (target_partial con2) = exprs (target_partial con1) @ new2"
          "\<forall>e \<in> set new2. \<exists>funcid rettype fargs coll icoll.
              e = T_FuncExpr funcid rettype fargs coll icoll COERCE_EXPLICIT_CALL"
      by blast
    from "12.prems" a Inr b have c: "con' = con2" by (auto split: sum.splits)
    have "exprs (target_partial con') = exprs (target_partial con) @ (new1 @ new2)"
      using s1(2) s2(2) c by simp
    moreover have "\<forall>e \<in> set (new1 @ new2). \<exists>funcid rettype fargs coll icoll.
              e = T_FuncExpr funcid rettype fargs coll icoll COERCE_EXPLICIT_CALL"
      using s1(3) s2(3) by auto
    moreover have "groupby_keys (pp_info con') = groupby_keys (pp_info con)"
      using s1(1) s2(1) c by simp
    ultimately show ?thesis by blast
  qed
qed (auto split: if_splits prod.splits sum.splits)

lemma build_path_target_columns_inv:
  "build_path_target_columns env es i con refno g = (r, con', refno', g') \<Longrightarrow>
     length (groupby_actions (pp_info con')) + length (exprs (target_partial con))
       = length (groupby_actions (pp_info con)) + length (exprs (target_partial con')) \<and>
     length (groupby_keys (pp_info con')) + length refno
       = length (groupby_keys (pp_info con)) + length refno' \<and>
     root con' = root con \<and>
     (\<exists>new. exprs (target_partial con') = exprs (target_partial con) @ new \<and>
            (\<forall>e \<in> set new. \<exists>funcid rettype fargs coll icoll.
                e = T_FuncExpr funcid rettype fargs coll icoll COERCE_EXPLICIT_CALL))"
proof (induction es arbitrary: i con refno g)
  case Nil
  then show ?case by simp
next
  case (Cons e es)
  let ?key = "get_pathtarget_sortgroupref (target_upper con) i \<noteq> 0 \<and>
              groupClause (parse (root con)) \<noteq> [] \<and>
              get_sortgroupref_clause_noerr (get_pathtarget_sortgroupref (target_upper con) i)
                (groupClause (parse (root con))) \<noteq> None"
  show ?case
  proof (cases ?key)
    case True
    let ?con1 = "con\<lparr>target_final := add_column_to_pathtarget (target_final con) e
                          (get_pathtarget_sortgroupref (target_upper con) i),
                      pp_info := (pp_info con)
                        \<lparr>groupby_keys := groupby_keys (pp_info con) @ [e]\<rparr>\<rparr>"
    let ?refno1 = "refno @ [get_pathtarget_sortgroupref (target_upper con) i]"
    from Cons.prems True
    consider (stop) "con' = con" "refno' = refno"
      | (go) "build_path_target_columns env es (Suc i) ?con1 ?refno1 g = (r, con', refno', g')"
      by (auto simp add: Let_def split: option.splits if_splits)
    then show ?thesis
    proof cases
      case stop
      then show ?thesis by simp
    next
      case go
      from Cons.IH[OF go] show ?thesis by simp
    qed
  next
    case False
    show ?thesis
    proof (cases e)
      case (T_Aggref aggref)
      obtain r1 con1 g1 where m: "make_alternative_aggref env con aggref g = (r1, con1, g1)"
        by (cases "make_alternative_aggref env con aggref g") auto
      note ls = make_alternative_aggref_lockstep[OF m]
      from make_alternative_aggref_appends_call[OF m] obtain new1 where
        n1: "exprs (target_partial con1) = exprs (target_partial con) @ new1"
            "\<forall>e \<in> set new1. \<exists>funcid rettype fargs coll icoll.
                e = T_FuncExpr funcid rettype fargs coll icoll COERCE_EXPLICIT_CALL"
        by blast
      let ?con2 = "\<lambda>altfn. con1\<lparr>target_final := add_column_to_pathtarget (target_final con1) altfn 0\<rparr>"
      from Cons.prems False T_Aggref m
      consider (stop) "con' = con1" "refno' = refno"
        | (go) altfn where
            "build_path_target_columns env es (Suc i) (?con2 altfn) refno g1 = (r, con', refno', g')"
        by (auto simp add: Let_def split: sum.splits if_splits)
      then show ?thesis
      proof cases
        case stop
        with ls n1 show ?thesis by auto
      next
        case go
        from Cons.IH[OF go] obtain new2 where
          i2: "length (groupby_actions (pp_info con')) + length (exprs (target_partial con1))
                 = length (groupby_actions (pp_info con1)) + length (exprs (target_partial con'))"
              "length (groupby_keys (pp_info con')) + length refno
                 = length (groupby_keys (pp_info con1)) + length refno'"
              "root con' = root con1"
              "exprs (target_partial con') = exprs (target_partial con1) @ new2"
              "\<forall>e \<in> set new2. \<exists>funcid rettype fargs coll icoll.
                  e = T_FuncExpr funcid rettype fargs coll icoll COERCE_EXPLICIT_CALL"
          by auto
        have "exprs (target_partial con') = exprs (target_partial con) @ (new1 @ new2)"
          using i2(4) n1(1) by simp
        moreover have "\<forall>e \<in> set (new1 @ new2). \<exists>funcid rettype fargs coll icoll.
                  e = T_FuncExpr funcid rettype fargs coll icoll COERCE_EXPLICIT_CALL"
          using i2(5) n1(2) by auto
        ultimately show ?thesis
          using i2(1-3) ls by (intro conjI exI[of _ "new1 @ new2"]) auto
      qed
    qed (use Cons.prems False in \<open>auto simp add: Let_def\<close>)
  qed
qed

lemma attach_groupby_keys_appends:
  "attach_groupby_keys env keyrefs con = (None, con') \<Longrightarrow>
     exprs (target_partial con') = exprs (target_partial con) @ map fst keyrefs \<and>
     groupby_actions (pp_info con')
       = groupby_actions (pp_info con) @ replicate (length keyrefs) KAGG_ACTION__VREF \<and>
     groupby_keys (pp_info con') = groupby_keys (pp_info con) \<and>
     root con' = root con"
proof (induction keyrefs arbitrary: con)
  case Nil
  then show ?case by simp
next
  case (Cons kr keyrefs)
  obtain key keyref where kr: "kr = (key, keyref)" by (cases kr)
  let ?target1 = "add_column_to_pathtarget (target_partial con) key keyref"
  let ?con1 = "con\<lparr>target_partial := ?target1,
                pp_info := (pp_info con)
                  \<lparr>groupby_actions := groupby_actions (pp_info con) @ [KAGG_ACTION__VREF],
                   kvars_depth := kvars_depth (pp_info con) @ [-1],
                   kvars_resno := kvars_resno (pp_info con) @ [length (exprs ?target1)]\<rparr>\<rparr>"
  from Cons.prems kr have go: "attach_groupby_keys env keyrefs ?con1 = (None, con')"
    by (auto simp add: Let_def split: if_splits)
  from Cons.IH[OF go] show ?case
    by (simp add: kr add_column_to_pathtarget_def replicate_app_Cons_same)
qed

lemma attach_groupby_keys_lockstep:
  "attach_groupby_keys env keyrefs con = (r, con') \<Longrightarrow>
     length (groupby_actions (pp_info con')) + length (exprs (target_partial con))
       = length (groupby_actions (pp_info con)) + length (exprs (target_partial con'))"
proof (induction keyrefs arbitrary: con)
  case Nil
  then show ?case by simp
next
  case (Cons kr keyrefs)
  obtain key keyref where kr: "kr = (key, keyref)" by (cases kr)
  let ?target1 = "add_column_to_pathtarget (target_partial con) key keyref"
  let ?con1 = "con\<lparr>target_partial := ?target1,
                pp_info := (pp_info con)
                  \<lparr>groupby_actions := groupby_actions (pp_info con) @ [KAGG_ACTION__VREF],
                   kvars_depth := kvars_depth (pp_info con) @ [-1],
                   kvars_resno := kvars_resno (pp_info con) @ [length (exprs ?target1)]\<rparr>\<rparr>"
  from Cons.prems kr
  consider (stop) "con' = con" | (go) "attach_groupby_keys env keyrefs ?con1 = (r, con')"
    by (auto simp add: Let_def split: if_splits)
  then show ?case
  proof cases
    case stop
    then show ?thesis by simp
  next
    case go
    from Cons.IH[OF go] show ?thesis
      by (simp add: add_column_to_pathtarget_def)
  qed
qed

text \<open>
  However the builder ends, the action list and the partial target have the same length
  if they had at the start.
\<close>

lemma build_path_target_lockstep:
  assumes run: "xpugroupby_build_path_target env con g = (r, con', g')"
      and start: "length (groupby_actions (pp_info con)) = length (exprs (target_partial con))"
  shows "length (groupby_actions (pp_info con')) = length (exprs (target_partial con'))"
proof -
  obtain r1 con1 refno g1 where
    c: "build_path_target_columns env (exprs (target_upper con)) 0 con [] g = (r1, con1, refno, g1)"
    by (cases "build_path_target_columns env (exprs (target_upper con)) 0 con [] g") auto
  from build_path_target_columns_inv[OF c] start
  have l1: "length (groupby_actions (pp_info con1)) = length (exprs (target_partial con1))"
    by simp
  show ?thesis
  proof (cases "r1 = Inr True")
    case False
    with run c have "con' = con1"
      by (auto simp add: xpugroupby_build_path_target_def split: sum.splits bool.splits)
    with l1 show ?thesis by simp
  next
    case True
    obtain r2 con2 where
      a: "attach_groupby_keys env (zip (groupby_keys (pp_info con1)) refno) con1 = (r2, con2)"
      by (cases "attach_groupby_keys env (zip (groupby_keys (pp_info con1)) refno) con1")
    from attach_groupby_keys_lockstep[OF a] l1
    have l2: "length (groupby_actions (pp_info con2)) = length (exprs (target_partial con2))"
      by simp
    show ?thesis
    proof (cases r2)
      case None
      obtain r3 con3 g3 where
        h: "(if havingQual (parse (root con2)) \<noteq> NULL
             then replace_expression_by_altfunc env (havingQual (parse (root con2))) con2 g1
             else (Inr NULL, con2, g1)) = (r3, con3, g3)"
        by (cases "(if havingQual (parse (root con2)) \<noteq> NULL
             then replace_expression_by_altfunc env (havingQual (parse (root con2))) con2 g1
             else (Inr NULL, con2, g1))") auto
      have l3: "length (groupby_actions (pp_info con3)) = length (exprs (target_partial con3))"
      proof (cases "havingQual (parse (root con2)) \<noteq> NULL")
        case True
        with h have "replace_expression_by_altfunc env (havingQual (parse (root con2))) con2 g1
                       = (r3, con3, g3)" by simp
        from replace_expression_lockstep(1)[OF this] l2 show ?thesis by simp
      next
        case False
        with h l2 show ?thesis by simp
      qed
      from run c True a None h
      have "con' = con3 \<or>
            con' = con3\<lparr>con_havingQual := projr r3,
                        target_final := set_pathtarget_cost_width env (target_final con3),
                        target_partial := set_pathtarget_cost_width env (target_partial con3)\<rparr>"
        by (auto simp add: xpugroupby_build_path_target_def split: sum.splits if_splits)
      with l3 show ?thesis
        by (auto simp add: set_pathtarget_cost_width_def)
    next
      case (Some e)
      with run c True a have "con' = con2"
        by (auto simp add: xpugroupby_build_path_target_def)
      with l2 show ?thesis by simp
    qed
  qed
qed

text \<open>
  When the builder succeeds on a context with an empty partial target and no keys, the
  partial target is: the partial calls for the select list, then the grouping keys, then
  the partial calls that only the HAVING predicate needed.
\<close>

lemma build_path_target_layout:
  assumes run: "xpugroupby_build_path_target env con g = (Inr True, con', g')"
      and empty: "exprs (target_partial con) = []"
      and nokeys: "groupby_keys (pp_info con) = []"
  shows "\<exists>aggs more.
           exprs (target_partial con') = aggs @ groupby_keys (pp_info con') @ more \<and>
           (\<forall>e \<in> set (aggs @ more). \<exists>funcid rettype fargs coll icoll.
               e = T_FuncExpr funcid rettype fargs coll icoll COERCE_EXPLICIT_CALL) \<and>
           (havingQual (parse (root con)) = NULL \<longrightarrow> more = [])"
proof -
  obtain r1 con1 refno g1 where
    c: "build_path_target_columns env (exprs (target_upper con)) 0 con [] g = (r1, con1, refno, g1)"
    by (cases "build_path_target_columns env (exprs (target_upper con)) 0 con [] g") auto
  from build_path_target_columns_inv[OF c] empty nokeys obtain aggs where
    s1: "length (groupby_keys (pp_info con1)) = length refno"
        "root con1 = root con"
        "exprs (target_partial con1) = aggs"
        "\<forall>e \<in> set aggs. \<exists>funcid rettype fargs coll icoll.
            e = T_FuncExpr funcid rettype fargs coll icoll COERCE_EXPLICIT_CALL"
    by auto
  from run c have r1: "r1 = Inr True"
    by (auto simp add: xpugroupby_build_path_target_def split: sum.splits bool.splits)
  obtain r2 con2 where
    a: "attach_groupby_keys env (zip (groupby_keys (pp_info con1)) refno) con1 = (r2, con2)"
    by (cases "attach_groupby_keys env (zip (groupby_keys (pp_info con1)) refno) con1")
  from run c r1 a have r2: "r2 = None"
    by (auto simp add: xpugroupby_build_path_target_def split: option.splits)
  from attach_groupby_keys_appends[OF a[unfolded r2]] s1
  have s2: "exprs (target_partial con2) = aggs @ groupby_keys (pp_info con2)"
           "root con2 = root con"
    by simp_all
  obtain r3 con3 g3 where
    h: "(if havingQual (parse (root con2)) \<noteq> NULL
         then replace_expression_by_altfunc env (havingQual (parse (root con2))) con2 g1
         else (Inr NULL, con2, g1)) = (r3, con3, g3)"
    by (cases "(if havingQual (parse (root con2)) \<noteq> NULL
         then replace_expression_by_altfunc env (havingQual (parse (root con2))) con2 g1
         else (Inr NULL, con2, g1))") auto
  have "\<exists>more. exprs (target_partial con3) = aggs @ groupby_keys (pp_info con3) @ more \<and>
           (\<forall>e \<in> set more. \<exists>funcid rettype fargs coll icoll.
               e = T_FuncExpr funcid rettype fargs coll icoll COERCE_EXPLICIT_CALL) \<and>
           (havingQual (parse (root con)) = NULL \<longrightarrow> more = [])"
  proof (cases "havingQual (parse (root con2)) \<noteq> NULL")
    case True
    with h have "replace_expression_by_altfunc env (havingQual (parse (root con2))) con2 g1
                   = (r3, con3, g3)" by simp
    from replace_expression_appends_calls(1)[OF this] True s2 show ?thesis by auto
  next
    case False
    with h s2 show ?thesis by auto
  qed
  then obtain more where
    s3: "exprs (target_partial con3) = aggs @ groupby_keys (pp_info con3) @ more"
        "\<forall>e \<in> set more. \<exists>funcid rettype fargs coll icoll.
            e = T_FuncExpr funcid rettype fargs coll icoll COERCE_EXPLICIT_CALL"
        "havingQual (parse (root con)) = NULL \<longrightarrow> more = []"
    by blast
  from run c r1 a r2 h
  have "con' = con3\<lparr>con_havingQual := projr r3,
                    target_final := set_pathtarget_cost_width env (target_final con3),
                    target_partial := set_pathtarget_cost_width env (target_partial con3)\<rparr>"
    by (auto simp add: xpugroupby_build_path_target_def split: sum.splits if_splits)
  then have "exprs (target_partial con') = exprs (target_partial con3)"
            "groupby_keys (pp_info con') = groupby_keys (pp_info con3)"
    by (simp_all add: set_pathtarget_cost_width_def)
  with s3 s1(4) show ?thesis
    by (intro exI[of _ aggs] exI[of _ more]) auto
qed

section \<open>The rewriter on calls it does not support, and the cost function\<close>

text \<open>
  \<^verbatim>\<open>equal()\<close> does not tell an implicit cast from the same call written out: a cast
  of \<^verbatim>\<open>x\<close> to int8 that is a grouping key is found whichever way it is displayed.
\<close>

lemma pg_equal_ignores_coercion_form:
  "pg_equal (T_FuncExpr funcid rettype fargs coll icoll COERCE_IMPLICIT_CAST)
            (T_FuncExpr funcid rettype fargs coll icoll COERCE_EXPLICIT_CALL) \<and>
   pg_equal (T_RelabelType arg rtype rtypmod rcoll COERCE_IMPLICIT_CAST)
            (T_RelabelType arg rtype rtypmod rcoll COERCE_EXPLICIT_CAST)"
  by (simp add: pg_equal_def)

text \<open>
  An aggregate call with an ORDER BY, a DISTINCT or an ordered-set kind gets \<^verbatim>\<open>NULL\<close>
  from the rewriter of aggregate calls, with the context and the cache as they were and
  no error; the expression rewriter passes the \<^verbatim>\<open>NULL\<close> on and clears
  \<open>device_executable\<close>; as a column of the upper target that is not a grouping key the
  call makes the first loop of the builder return false. The same holds for a call whose
  function the resolver does not resolve, whatever its \<open>aggvariadic\<close>: the rewriter has
  no test of that flag.
\<close>

lemma aggref_modifier_declined:
  assumes "aggorder aggref \<noteq> [] \<or> aggdistinct aggref \<noteq> [] \<or>
           AGGKIND_IS_ORDERED_SET (aggkind aggref)"
  shows "make_alternative_aggref env con aggref g = (Inr NULL, con, g)
       \<and> replace_expression_by_altfunc env (T_Aggref aggref) con g
           = (Inr NULL, con\<lparr>device_executable := False\<rparr>, g)
       \<and> (get_pathtarget_sortgroupref (target_upper con) i = 0 \<longrightarrow>
            build_path_target_columns env (T_Aggref aggref # es) i con refno g
              = (Inr False, con, refno, g))"
proof -
  have m: "make_alternative_aggref env con aggref g = (Inr NULL, con, g)"
    using assms by (auto simp add: make_alternative_aggref_def)
  show ?thesis
    by (simp add: m)
qed

lemma unresolved_aggregate_declined:
  assumes "fst (aggfunc_catalog_lookup_by_oid (catalog env) (aggfnoid aggref) g) = Inr None"
  shows "fst (make_alternative_aggref env con aggref g) = Inr NULL \<and>
         fst (replace_expression_by_altfunc env (T_Aggref aggref) con g) = Inr NULL"
proof -
  obtain r g1 where l: "aggfunc_catalog_lookup_by_oid (catalog env) (aggfnoid aggref) g = (r, g1)"
    by (cases "aggfunc_catalog_lookup_by_oid (catalog env) (aggfnoid aggref) g")
  with assms have r: "r = Inr None" by simp
  have m: "fst (make_alternative_aggref env con aggref g) = Inr NULL"
    by (simp add: make_alternative_aggref_def l r)
  then show ?thesis
    by (cases "make_alternative_aggref env con aggref g") auto
qed

text \<open>
  The cost of the partial path as \<^verbatim>\<open>prepend_partial_groupby_custompath\<close> computes it
  from its context: with the operator cost, tuple cost and operator ratio of the device
  kind of the task, the formulas of the cost model hold with the field \<open>num_groups\<close> of
  the context for the number of groups.
\<close>

lemma prepend_partial_cost_formula:
  assumes "prepend_partial_groupby_custompath env con = Inr cpath"
  shows "case (if (task_kind con AND DEVKIND__ANY env) = DEVKIND__NVIDIA_GPU env
               then (pgstrom_gpu_operator_cost env, pgstrom_gpu_tuple_cost env,
                     pgstrom_gpu_operator_ratio env)
               else (pgstrom_dpu_operator_cost env, pgstrom_dpu_tuple_cost env,
                     pgstrom_dpu_operator_ratio env)) of
           (xpu_operator_cost, xpu_tuple_cost, xpu_ratio) \<Rightarrow>
             startup_cost (path cpath) =
               startup_cost (input_path con)
               + xpu_operator_cost * real (length (groupClause (parse (root con))))
                   * rows (input_path con)
               + (per_tuple (cost (target_partial con)) * rows (input_path con)
                  + startup (cost (target_partial con))) * xpu_ratio \<and>
             total_cost (path cpath) =
               startup_cost (path cpath)
               + (total_cost (input_path con) - startup_cost (input_path con)
                  - final_cost (pp_info con))
               + (if parallel_workers (input_path con) > 0
                  then xpu_tuple_cost * num_groups con
                         * (0.5 + real_of_int (parallel_workers (input_path con)))
                  else xpu_tuple_cost * num_groups con) \<and>
             rows (path cpath) = num_groups con"
  using assms
  by (auto simp add: prepend_partial_groupby_custompath_def Let_def split: if_splits)

section \<open>The claims\<close>

text \<open>
  Claim C1. On every successful run of the target builder, every grouping key stands in
  the partial target list after every partial-aggregate call, those of the HAVING
  predicate included, and every entry of the partial list has its action at the same
  position of the action list.

  The source says the same about the order ("grouping-keys must be located after the
  aggregate functions") and appends the keys after the aggregates of the select list,
  but it rewrites the HAVING predicate after that. For
  \<^verbatim>\<open>SELECT k, count(*) ... GROUP BY k HAVING sum(x) > 10\<close> the builder succeeds and
  the partial target is \<^verbatim>\<open>nrows()\<close>, \<^verbatim>\<open>k\<close>, \<^verbatim>\<open>psum(x::int8)\<close>: the key at position 1
  stands before the partial aggregate at position 2. The actions are in step with the
  list there, as they are on every run (\<open>build_path_target_lockstep\<close>), and the
  partial calls of the select list do stand before the keys
  (\<open>build_path_target_layout\<close>).
\<close>

theorem having_only_aggregate_follows_grouping_key:
  "fst (xpugroupby_build_path_target example_env
          (example_con example_upper_key_count [example_sort_clause] example_having_sum)
          example_globals) = Inr True \<and>
   exprs (target_partial (fst (snd (xpugroupby_build_path_target example_env
          (example_con example_upper_key_count [example_sort_clause] example_having_sum)
          example_globals)))) =
     [T_FuncExpr 90001 20 [] 0 0 COERCE_EXPLICIT_CALL,
      example_var_k,
      T_FuncExpr 90003 20 [T_FuncExpr 481 20 [example_var_x] 0 0 COERCE_IMPLICIT_CAST] 0 0
        COERCE_EXPLICIT_CALL] \<and>
   groupby_keys (pp_info (fst (snd (xpugroupby_build_path_target example_env
          (example_con example_upper_key_count [example_sort_clause] example_having_sum)
          example_globals)))) = [example_var_k] \<and>
   groupby_actions (pp_info (fst (snd (xpugroupby_build_path_target example_env
          (example_con example_upper_key_count [example_sort_clause] example_having_sum)
          example_globals)))) =
     [KAGG_ACTION__NROWS_ANY, KAGG_ACTION__VREF, KAGG_ACTION__PSUM_INT]"
  by (simp add: example_builder_defs)

text \<open>
  Claim C2. For an aggregate function whose signature matches an entry of the static
  catalog, the resolver checks the live partial function against what the action fixes
  (no argument and int8 for \<^verbatim>\<open>NROWS_ANY\<close>; one argument and int8 for \<^verbatim>\<open>NROWS_COND\<close>
  and \<^verbatim>\<open>PSUM_INT\<close>; one argument and float8 for \<^verbatim>\<open>PSUM_FP\<close>; one argument and bytea for
  minimum, maximum, average and standard deviation; two arguments and bytea for
  covariance), and the final function to be an aggregate of one argument, of the type
  the partial function returns, returning what the aggregate returns. The lookup
  raises, or the entry it has cached is valid and has all of that.
\<close>

theorem resolver_validates_partial_and_final:
  assumes uncached: "(case aggfunc_catalog_htable g of None \<Rightarrow> None | Some h \<Rightarrow> h fn_oid) = None"
      and proc: "PROCOID sc fn_oid = Some proc"
      and nsp: "pronamespace proc = PG_CATALOG_NAMESPACE"
      and nargs: "pronargs proc \<le> 2"
      and names: "sprintf_argtypes sc 0 (proargtypes proc) = Inr argnames"
      and match: "find (\<lambda>cat. aggfn_signature cat = proname proc @ ''('' @ argnames @ '')'')
                    aggfunc_catalog_array = Some cat"
      and run: "aggfunc_catalog_lookup_by_oid sc fn_oid g = (res, g')"
  shows "(\<exists>e. res = Inl e) \<or>
         (\<exists>h entry pf ff.
            aggfunc_catalog_htable g' = Some h \<and> h fn_oid = Some entry \<and>
            is_valid_entry entry \<and> res = Inr (aggfunc_catalog_entry_usable g entry) \<and>
            partial_func_action entry = partfn_action cat \<and>
            PROCOID sc (partial_func_oid entry) = Some pf \<and>
            prorettype pf = partial_func_rettype entry \<and>
            length (proargtypes pf) = partial_func_nargs entry \<and>
            (partfn_action cat = KAGG_ACTION__NROWS_ANY
               \<longrightarrow> prorettype pf = INT8OID \<and> length (proargtypes pf) = 0) \<and>
            (partfn_action cat \<in> {KAGG_ACTION__NROWS_COND, KAGG_ACTION__PSUM_INT}
               \<longrightarrow> prorettype pf = INT8OID \<and> length (proargtypes pf) = 1) \<and>
            (partfn_action cat = KAGG_ACTION__PSUM_FP
               \<longrightarrow> prorettype pf = FLOAT8OID \<and> length (proargtypes pf) = 1) \<and>
            (partfn_action cat \<in> {KAGG_ACTION__PMIN_INT, KAGG_ACTION__PMIN_FP,
                                   KAGG_ACTION__PMAX_INT, KAGG_ACTION__PMAX_FP,
                                   KAGG_ACTION__PAVG_INT, KAGG_ACTION__PAVG_FP,
                                   KAGG_ACTION__STDDEV}
               \<longrightarrow> prorettype pf = BYTEAOID \<and> length (proargtypes pf) = 1) \<and>
            (partfn_action cat = KAGG_ACTION__COVAR
               \<longrightarrow> prorettype pf = BYTEAOID \<and> length (proargtypes pf) = 2) \<and>
            AGGFNOID sc (final_func_oid entry) \<noteq> None \<and>
            PROCOID sc (final_func_oid entry) = Some ff \<and>
            proargtypes ff = [prorettype pf] \<and>
            prorettype ff = prorettype proc)"
proof (cases res)
  case (Inl e)
  then show ?thesis by simp
next
  case (Inr r)
  define entry0 where
    "entry0 = (hash_enter_uninit sc)\<lparr>aggfn_oid := fn_oid, is_valid_entry := False\<rparr>"
  define buf where "buf = proname proc @ ''('' @ argnames @ '')''"
  have pop: "aggfunc_catalog_populate sc fn_oid entry0 =
               scan_aggfunc_catalog sc proc buf aggfunc_catalog_array entry0"
    using proc nsp nargs names by (simp add: aggfunc_catalog_populate_def buf_def)
  obtain r1 entry where sc1: "scan_aggfunc_catalog sc proc buf aggfunc_catalog_array entry0
                               = (r1, entry)"
    by (cases "scan_aggfunc_catalog sc proc buf aggfunc_catalog_array entry0")
  from run uncached Inr pop sc1 have r1: "r1 = None"
    and res: "res = Inr (aggfunc_catalog_entry_usable g entry)"
    and tab: "\<exists>h. aggfunc_catalog_htable g' = Some h \<and> h fn_oid = Some entry"
    by (auto simp add: aggfunc_catalog_lookup_by_oid_def Let_def entry0_def
          split: option.splits)
  from tab obtain h where h: "aggfunc_catalog_htable g' = Some h" "h fn_oid = Some entry"
    by blast
  from scan_aggfunc_catalog_ok[OF match[folded buf_def] sc1[unfolded r1]]
  obtain pf ff where
    ok: "is_valid_entry entry" "partial_func_action entry = partfn_action cat"
        "partfn_action_expects (partfn_action cat) =
           Some (partial_func_rettype entry, partial_func_nargs entry)"
        "PROCOID sc (partial_func_oid entry) = Some pf"
        "prorettype pf = partial_func_rettype entry"
        "length (proargtypes pf) = partial_func_nargs entry"
        "AGGFNOID sc (final_func_oid entry) \<noteq> None"
        "PROCOID sc (final_func_oid entry) = Some ff"
        "proargtypes ff = [partial_func_rettype entry]"
        "prorettype ff = prorettype proc"
    by blast
  note tbl = partfn_action_expects_table[OF ok(3)]
  have "aggfunc_catalog_htable g' = Some h \<and> h fn_oid = Some entry \<and>
            is_valid_entry entry \<and> res = Inr (aggfunc_catalog_entry_usable g entry) \<and>
            partial_func_action entry = partfn_action cat \<and>
            PROCOID sc (partial_func_oid entry) = Some pf \<and>
            prorettype pf = partial_func_rettype entry \<and>
            length (proargtypes pf) = partial_func_nargs entry \<and>
            (partfn_action cat = KAGG_ACTION__NROWS_ANY
               \<longrightarrow> prorettype pf = INT8OID \<and> length (proargtypes pf) = 0) \<and>
            (partfn_action cat \<in> {KAGG_ACTION__NROWS_COND, KAGG_ACTION__PSUM_INT}
               \<longrightarrow> prorettype pf = INT8OID \<and> length (proargtypes pf) = 1) \<and>
            (partfn_action cat = KAGG_ACTION__PSUM_FP
               \<longrightarrow> prorettype pf = FLOAT8OID \<and> length (proargtypes pf) = 1) \<and>
            (partfn_action cat \<in> {KAGG_ACTION__PMIN_INT, KAGG_ACTION__PMIN_FP,
                                   KAGG_ACTION__PMAX_INT, KAGG_ACTION__PMAX_FP,
                                   KAGG_ACTION__PAVG_INT, KAGG_ACTION__PAVG_FP,
                                   KAGG_ACTION__STDDEV}
               \<longrightarrow> prorettype pf = BYTEAOID \<and> length (proargtypes pf) = 1) \<and>
            (partfn_action cat = KAGG_ACTION__COVAR
               \<longrightarrow> prorettype pf = BYTEAOID \<and> length (proargtypes pf) = 2) \<and>
            AGGFNOID sc (final_func_oid entry) \<noteq> None \<and>
            PROCOID sc (final_func_oid entry) = Some ff \<and>
            proargtypes ff = [prorettype pf] \<and>
            prorettype ff = prorettype proc"
    using h ok res tbl by simp
  then show ?thesis by blast
qed

theorem resolver_validates_partial_and_final_witness:
  "(case aggfunc_catalog_htable example_globals of None \<Rightarrow> None | Some h \<Rightarrow> h 2108) = None \<and>
   PROCOID example_syscache 2108 =
     Some \<lparr>proname = ''sum'', pronamespace = 11, proargtypes = [23], prorettype = 20\<rparr> \<and>
   sprintf_argtypes example_syscache 0 [23] = Inr ''int4'' \<and>
   find (\<lambda>cat. aggfn_signature cat = ''sum(int4)'') aggfunc_catalog_array =
     Some \<lparr>aggfn_signature = ''sum(int4)'', finalfn_signature = ''s:sum(int8)'',
           partfn_signature = ''s:psum(int8)'', partfn_action = KAGG_ACTION__PSUM_INT,
           cat_numeric_aware = False\<rparr> \<and>
   fst (aggfunc_catalog_lookup_by_oid example_syscache 2108 example_globals) =
     Inr (Some \<lparr>aggfn_oid = 2108, final_func_oid = 90004, partial_func_oid = 90003,
                partial_func_rettype = 20, partial_func_nargs = 1,
                partial_func_action = KAGG_ACTION__PSUM_INT, numeric_aware = False,
                is_valid_entry = True\<rparr>) \<and>
   (\<exists>pf ff. PROCOID example_syscache 90003 = Some pf \<and> prorettype pf = INT8OID \<and>
            length (proargtypes pf) = 1 \<and>
            AGGFNOID example_syscache 90004 \<noteq> None \<and>
            PROCOID example_syscache 90004 = Some ff \<and>
            proargtypes ff = [prorettype pf] \<and> prorettype ff = 20)"
proof -
  let ?proc = "\<lparr>proname = ''sum'', pronamespace = 11, proargtypes = [23], prorettype = 20\<rparr>"
  let ?cat = "\<lparr>aggfn_signature = ''sum(int4)'', finalfn_signature = ''s:sum(int8)'',
               partfn_signature = ''s:psum(int8)'', partfn_action = KAGG_ACTION__PSUM_INT,
               cat_numeric_aware = False\<rparr>"
  let ?entry = "\<lparr>aggfn_oid = 2108, final_func_oid = 90004, partial_func_oid = 90003,
                partial_func_rettype = 20, partial_func_nargs = 1,
                partial_func_action = KAGG_ACTION__PSUM_INT, numeric_aware = False,
                is_valid_entry = True\<rparr>"
  let ?run = "aggfunc_catalog_lookup_by_oid example_syscache 2108 example_globals"
  have h1: "(case aggfunc_catalog_htable example_globals of None \<Rightarrow> None | Some h \<Rightarrow> h 2108) = None"
    by (simp add: example_globals_def)
  have h2: "PROCOID example_syscache 2108 = Some ?proc"
    by (simp add: example_catalog_defs)
  have h3: "pronamespace ?proc = PG_CATALOG_NAMESPACE"
    by (simp add: PG_CATALOG_NAMESPACE_def)
  have h4: "pronargs ?proc \<le> 2"
    by (simp add: pronargs_def)
  have h5: "sprintf_argtypes example_syscache 0 (proargtypes ?proc) = Inr ''int4''"
    by (simp add: example_catalog_defs)
  have h6: "find (\<lambda>cat. aggfn_signature cat = proname ?proc @ ''('' @ ''int4'' @ '')'')
              aggfunc_catalog_array = Some ?cat"
    by (simp add: aggfunc_catalog_array_def)
  have f: "fst ?run = Inr (Some ?entry)"
    by (simp add: example_lookup_defs example_globals_def example_catalog_defs)
  then have h7: "?run = (Inr (Some ?entry), snd ?run)"
    by (simp add: prod_eq_iff)
  from resolver_validates_partial_and_final[OF h1 h2 h3 h4 h5 h6 h7]
  obtain h entry pf ff where
    r: "Inr (Some ?entry) = Inr (aggfunc_catalog_entry_usable example_globals entry)"
       "PROCOID example_syscache (partial_func_oid entry) = Some pf"
       "partfn_action ?cat \<in> {KAGG_ACTION__NROWS_COND, KAGG_ACTION__PSUM_INT}
          \<longrightarrow> prorettype pf = INT8OID \<and> length (proargtypes pf) = 1"
       "AGGFNOID example_syscache (final_func_oid entry) \<noteq> None"
       "PROCOID example_syscache (final_func_oid entry) = Some ff"
       "proargtypes ff = [prorettype pf]"
       "prorettype ff = prorettype ?proc"
    by blast
  from r(1) have e: "entry = ?entry"
    by (simp add: aggfunc_catalog_entry_usable_def split: if_splits)
  have c: "\<exists>pf ff. PROCOID example_syscache 90003 = Some pf \<and> prorettype pf = INT8OID \<and>
            length (proargtypes pf) = 1 \<and>
            AGGFNOID example_syscache 90004 \<noteq> None \<and>
            PROCOID example_syscache 90004 = Some ff \<and>
            proargtypes ff = [prorettype pf] \<and> prorettype ff = 20"
    using r(2-7) unfolding e by simp
  from h1 h2 h5 h6 f c show ?thesis by simp
qed

text \<open>
  Claim C3. When an aggregate inside the HAVING predicate has no alternative, at any
  depth, the target builder returns failure and no path is offered.

  The rewriter records the failure in \<open>device_executable\<close>, which nothing reads, and the
  builder only tests whether the rewritten predicate as a whole is \<^verbatim>\<open>NULL\<close>. For
  \<^verbatim>\<open>SELECT count(*) ... HAVING sum(x ORDER BY k) > 10\<close> the aggregate is an argument of
  the comparison: the builder returns true with the flag cleared and a predicate in which
  \<^verbatim>\<open>NULL\<close> stands for the aggregate, and the entry point adds an aggregation path carrying that
  predicate to the grouping relation.
\<close>

theorem failed_having_rewrite_still_offers_path:
  "fst (xpugroupby_build_path_target example_env
          (example_con example_upper_count [] example_having_sum_ordered)
          example_globals) = Inr True \<and>
   \<not> device_executable (fst (snd (xpugroupby_build_path_target example_env
          (example_con example_upper_count [] example_having_sum_ordered)
          example_globals))) \<and>
   con_havingQual (fst (snd (xpugroupby_build_path_target example_env
          (example_con example_upper_count [] example_having_sum_ordered)
          example_globals))) = T_List [T_OpExpr 413 16 0 0 [NULL, T_Const 20 (- 1) 0 10]] \<and>
   fst (xpupreagg_add_custompath example_env
          (example_root example_upper_count [] example_having_sum_ordered)
          example_input_rel example_group_rel \<lparr>targetList = []\<rparr> 1 ''GpuPreAgg''
          example_globals) = None \<and>
   map (\<lambda>p. case p of AggPathNode a \<Rightarrow> qual a | OtherPathNode q \<Rightarrow> NULL)
     (pathlist (fst (snd (xpupreagg_add_custompath example_env
          (example_root example_upper_count [] example_having_sum_ordered)
          example_input_rel example_group_rel \<lparr>targetList = []\<rparr> 1 ''GpuPreAgg''
          example_globals))))
     = [T_List [T_OpExpr 413 16 0 0 [NULL, T_Const 20 (- 1) 0 10]]]"
  by (simp add: example_entry_defs example_builder_defs)

theorem failed_having_rewrite_still_offers_path_witness:
  "pathlist (fst (snd (xpupreagg_add_custompath example_env
          (example_root example_upper_count [] example_having_sum_ordered)
          example_input_rel example_group_rel \<lparr>targetList = []\<rparr> 1 ''GpuPreAgg''
          example_globals))) \<noteq> []"
  using failed_having_rewrite_still_offers_path by auto

text \<open>
  Claim C4. When populating a new cache entry raises, the entry is taken out of the
  cache before the error goes on: after a lookup that raised, the table exists, has no
  entry for the identifier, and is unchanged elsewhere; and a lookup raises only for an
  identifier that was not in the table.
\<close>

theorem lookup_error_removes_entry:
  assumes "aggfunc_catalog_lookup_by_oid sc fn_oid g = (Inl e, g')"
  shows "\<exists>h. aggfunc_catalog_htable g' = Some h \<and> h fn_oid = None \<and>
             (\<forall>k. k \<noteq> fn_oid \<longrightarrow>
                  h k = (case aggfunc_catalog_htable g of None \<Rightarrow> None | Some h0 \<Rightarrow> h0 k)) \<and>
             (case aggfunc_catalog_htable g of None \<Rightarrow> None | Some h0 \<Rightarrow> h0 fn_oid) = None"
  using assms
  by (auto simp add: aggfunc_catalog_lookup_by_oid_def Let_def split: option.splits prod.splits)

theorem lookup_error_removes_entry_witness:
  "fst (aggfunc_catalog_lookup_by_oid example_syscache 2132 example_globals)
     = Inl (ERROR_partial_function_mismatch ''s:pmin(int4)'') \<and>
   (\<exists>h. aggfunc_catalog_htable
           (snd (aggfunc_catalog_lookup_by_oid example_syscache 2132 example_globals)) = Some h \<and>
        h 2132 = None)"
proof -
  have f: "fst (aggfunc_catalog_lookup_by_oid example_syscache 2132 example_globals)
             = Inl (ERROR_partial_function_mismatch ''s:pmin(int4)'')"
    by (simp add: example_lookup_defs example_globals_def example_catalog_defs)
  then have h: "aggfunc_catalog_lookup_by_oid example_syscache 2132 example_globals
             = (Inl (ERROR_partial_function_mismatch ''s:pmin(int4)''),
                snd (aggfunc_catalog_lookup_by_oid example_syscache 2132 example_globals))"
    by (simp add: prod_eq_iff)
  from lookup_error_removes_entry[OF h] f show ?thesis
    by blast
qed

text \<open>
  Claim C5. An aggregate call with an ORDER BY, a DISTINCT or an ordered-set kind makes
  the rewriter return "no rewrite" without an error, so that the alternative path is not
  produced.

  The rewriter does return \<^verbatim>\<open>NULL\<close> without an error (\<open>aggref_modifier_declined\<close>), and
  for a call in the select list the builder returns false. For a call inside the HAVING
  predicate the \<^verbatim>\<open>NULL\<close> is not followed up: for
  \<^verbatim>\<open>SELECT count(*) ... HAVING sum(DISTINCT x) > 10\<close> the rewriter declines the
  aggregate, the builder returns true all the same, and the entry point adds an
  aggregation path whose predicate has \<^verbatim>\<open>NULL\<close> where the aggregate was. The source
  sets \<open>device_executable\<close> for this case and never reads it.
\<close>

theorem distinct_aggregate_in_having_still_gets_path:
  "aggdistinct example_sum_x_distinct \<noteq> [] \<and>
   make_alternative_aggref example_env
       (example_con example_upper_count [] example_having_sum_distinct)
       example_sum_x_distinct example_globals
     = (Inr NULL, example_con example_upper_count [] example_having_sum_distinct,
        example_globals) \<and>
   fst (xpugroupby_build_path_target example_env
          (example_con example_upper_count [] example_having_sum_distinct)
          example_globals) = Inr True \<and>
   fst (xpupreagg_add_custompath example_env
          (example_root example_upper_count [] example_having_sum_distinct)
          example_input_rel example_group_rel \<lparr>targetList = []\<rparr> 1 ''GpuPreAgg''
          example_globals) = None \<and>
   map (\<lambda>p. case p of AggPathNode a \<Rightarrow> qual a | OtherPathNode q \<Rightarrow> NULL)
     (pathlist (fst (snd (xpupreagg_add_custompath example_env
          (example_root example_upper_count [] example_having_sum_distinct)
          example_input_rel example_group_rel \<lparr>targetList = []\<rparr> 1 ''GpuPreAgg''
          example_globals))))
     = [T_List [T_OpExpr 413 16 0 0 [NULL, T_Const 20 (- 1) 0 10]]]"
  by (simp add: example_entry_defs example_builder_defs)

theorem distinct_aggregate_in_having_still_gets_path_witness:
  "pathlist (fst (snd (xpupreagg_add_custompath example_env
          (example_root example_upper_count [] example_having_sum_distinct)
          example_input_rel example_group_rel \<lparr>targetList = []\<rparr> 1 ''GpuPreAgg''
          example_globals))) \<noteq> []"
  using distinct_aggregate_in_having_still_gets_path by auto

text \<open>
  Claim C6. A variadic aggregate call is rejected by the rewriter and the failure is
  propagated: no alternative path is produced.

  The rewriter returns \<^verbatim>\<open>NULL\<close> for the call because the resolver has no entry for a
  variadic aggregate, not because of the flag (\<open>unresolved_aggregate_declined\<close>). For a
  call in the select list the builder then returns false. For a call inside the HAVING
  predicate the failure is not propagated: for
  \<^verbatim>\<open>SELECT count(*) ... HAVING my_sum(VARIADIC xs) > 10\<close> the rewriter declines the
  aggregate, the builder returns true all the same, and the entry point adds an
  aggregation path whose predicate has \<^verbatim>\<open>NULL\<close> where the aggregate was.
\<close>

theorem variadic_aggregate_in_having_still_gets_path:
  "aggvariadic example_my_sum_variadic \<and>
   fst (make_alternative_aggref example_env
          (example_con example_upper_count [] example_having_my_sum_variadic)
          example_my_sum_variadic example_globals) = Inr NULL \<and>
   fst (xpugroupby_build_path_target example_env
          (example_con example_upper_count [] example_having_my_sum_variadic)
          example_globals) = Inr True \<and>
   fst (xpupreagg_add_custompath example_env
          (example_root example_upper_count [] example_having_my_sum_variadic)
          example_input_rel example_group_rel \<lparr>targetList = []\<rparr> 1 ''GpuPreAgg''
          example_globals) = None \<and>
   map (\<lambda>p. case p of AggPathNode a \<Rightarrow> qual a | OtherPathNode q \<Rightarrow> NULL)
     (pathlist (fst (snd (xpupreagg_add_custompath example_env
          (example_root example_upper_count [] example_having_my_sum_variadic)
          example_input_rel example_group_rel \<lparr>targetList = []\<rparr> 1 ''GpuPreAgg''
          example_globals))))
     = [T_List [T_OpExpr 413 16 0 0 [NULL, T_Const 20 (- 1) 0 10]]]"
  by (simp add: example_entry_defs example_builder_defs)

theorem variadic_aggregate_in_having_still_gets_path_witness:
  "pathlist (fst (snd (xpupreagg_add_custompath example_env
          (example_root example_upper_count [] example_having_my_sum_variadic)
          example_input_rel example_group_rel \<lparr>targetList = []\<rparr> 1 ''GpuPreAgg''
          example_globals))) \<noteq> []"
  using variadic_aggregate_in_having_still_gets_path by auto

text \<open>
  Claim C7. The cost of the partial path: startup cost, run cost, final cost (tuple cost
  times the estimated number of groups, times 0.5 plus the number of workers for a
  parallel input) and total cost as in the cost model, and a row estimate equal to the
  estimated number of groups.

  \<^verbatim>\<open>prepend_partial_groupby_custompath\<close> has these formulas over the field
  \<open>num_groups\<close> of its context (\<open>prepend_partial_cost_formula\<close>), but the estimate never
  reaches that field: the call in \<^verbatim>\<open>xpupreagg_add_custompath\<close> has the estimate and the
  parallel flag in each other's place, so the field is 0 or 1. For
  \<^verbatim>\<open>SELECT k, count(*) ... GROUP BY k\<close> with ten groups estimated the one path offered
  is hashed aggregation for one group over a gather path over the partial path, and the
  partial path has row estimate 1, startup cost 9010 and total cost 9110. With the
  estimate the cost model gives row estimate 10 and total cost
  9010 + 95 + 2 * 10 * 2.5 = 9155.
\<close>

theorem entry_point_builds_partial_path_for_one_group:
  "estimate_num_groups example_env
     (get_sortgrouplist_exprs example_env [example_sort_clause] [example_var_k])
     (rows (example_input_path True)) = 10 \<and>
   fst (xpupreagg_add_custompath example_env
          (example_root example_upper_key_count [example_sort_clause] NULL)
          example_input_rel example_group_rel \<lparr>targetList = [example_var_k]\<rparr> 1 ''GpuPreAgg''
          example_globals) = None \<and>
   map (\<lambda>p. case p of
               AggPathNode a \<Rightarrow>
                 (case subpath a of
                    GatherPathNode gather cpath \<Rightarrow>
                      (aggstrategy a, numGroups a, parallel_workers (path cpath),
                       rows (path cpath), startup_cost (path cpath), total_cost (path cpath))
                  | CustomPathNode cpath \<Rightarrow>
                      (aggstrategy a, numGroups a, parallel_workers (path cpath),
                       rows (path cpath), startup_cost (path cpath), total_cost (path cpath)))
             | OtherPathNode q \<Rightarrow> (AGG_MIXED, 0, 0, 0, 0, 0))
     (pathlist (fst (snd (xpupreagg_add_custompath example_env
          (example_root example_upper_key_count [example_sort_clause] NULL)
          example_input_rel example_group_rel \<lparr>targetList = [example_var_k]\<rparr> 1 ''GpuPreAgg''
          example_globals))))
     = [(AGG_HASHED, 1, 2, 1, 9010, 9110)]"
  by (simp add: example_entry_defs example_builder_defs)

theorem entry_point_builds_partial_path_for_one_group_witness:
  "pathlist (fst (snd (xpupreagg_add_custompath example_env
          (example_root example_upper_key_count [example_sort_clause] NULL)
          example_input_rel example_group_rel \<lparr>targetList = [example_var_k]\<rparr> 1 ''GpuPreAgg''
          example_globals))) \<noteq> []"
  using entry_point_builds_partial_path_for_one_group by auto

text \<open>
  Claim C8. With operator costs, operator ratios and the per-tuple cost of the partial
  target not negative, more input rows never give a smaller startup cost or total cost,
  everything else being the same. (Whether the function raises does not depend on the
  rows.)
\<close>

theorem prepend_partial_cost_monotone:
  assumes "0 \<le> pgstrom_gpu_operator_cost env" and "0 \<le> pgstrom_dpu_operator_cost env"
      and "0 \<le> pgstrom_gpu_operator_ratio env" and "0 \<le> pgstrom_dpu_operator_ratio env"
      and "0 \<le> per_tuple (cost (target_partial con))"
      and "r \<le> r'"
  shows "case (prepend_partial_groupby_custompath env
                 (con\<lparr>input_path := (input_path con)\<lparr>rows := r\<rparr>\<rparr>),
               prepend_partial_groupby_custompath env
                 (con\<lparr>input_path := (input_path con)\<lparr>rows := r'\<rparr>\<rparr>)) of
           (Inr p, Inr p') \<Rightarrow>
              startup_cost (path p) \<le> startup_cost (path p') \<and>
              total_cost (path p) \<le> total_cost (path p')
         | (Inl e, Inl e') \<Rightarrow> e = e'
         | _ \<Rightarrow> False"
proof -
  have m: "\<And>a b. 0 \<le> a \<Longrightarrow> 0 \<le> b \<Longrightarrow>
              a * real (length (groupClause (parse (root con)))) * r
                + (per_tuple (cost (target_partial con)) * r + startup (cost (target_partial con))) * b
            \<le> a * real (length (groupClause (parse (root con)))) * r'
                + (per_tuple (cost (target_partial con)) * r' + startup (cost (target_partial con))) * b"
  proof -
    fix a b :: real assume a: "0 \<le> a" and b: "0 \<le> b"
    have 1: "a * real (length (groupClause (parse (root con)))) * r
               \<le> a * real (length (groupClause (parse (root con)))) * r'"
      using a assms(6) by (intro mult_left_mono) simp_all
    have "per_tuple (cost (target_partial con)) * r \<le> per_tuple (cost (target_partial con)) * r'"
      using assms(5,6) by (intro mult_left_mono)
    then have 2: "(per_tuple (cost (target_partial con)) * r + startup (cost (target_partial con))) * b
               \<le> (per_tuple (cost (target_partial con)) * r' + startup (cost (target_partial con))) * b"
      using b by (intro mult_right_mono) simp_all
    from 1 2 show "a * real (length (groupClause (parse (root con)))) * r
                + (per_tuple (cost (target_partial con)) * r + startup (cost (target_partial con))) * b
            \<le> a * real (length (groupClause (parse (root con)))) * r'
                + (per_tuple (cost (target_partial con)) * r' + startup (cost (target_partial con))) * b"
      by linarith
  qed
  note g = m[OF assms(1) assms(3)]
  note d = m[OF assms(2) assms(4)]
  show ?thesis
    using g d by (simp add: prepend_partial_groupby_custompath_def Let_def)
qed

theorem prepend_partial_cost_monotone_witness:
  "(0::real) \<le> pgstrom_gpu_operator_cost example_env \<and>
   0 \<le> pgstrom_dpu_operator_cost example_env \<and>
   0 \<le> pgstrom_gpu_operator_ratio example_env \<and>
   0 \<le> pgstrom_dpu_operator_ratio example_env \<and>
   0 \<le> per_tuple (cost (target_partial (example_con example_upper_key_count [example_sort_clause] NULL))) \<and>
   (1000::real) \<le> 2000 \<and>
   (case (prepend_partial_groupby_custompath example_env
            ((example_con example_upper_key_count [example_sort_clause] NULL)
               \<lparr>input_path := (input_path (example_con example_upper_key_count
                                               [example_sort_clause] NULL))\<lparr>rows := 1000\<rparr>\<rparr>),
          prepend_partial_groupby_custompath example_env
            ((example_con example_upper_key_count [example_sort_clause] NULL)
               \<lparr>input_path := (input_path (example_con example_upper_key_count
                                               [example_sort_clause] NULL))\<lparr>rows := 2000\<rparr>\<rparr>)) of
      (Inr p, Inr p') \<Rightarrow>
         startup_cost (path p) \<le> startup_cost (path p') \<and>
         total_cost (path p) \<le> total_cost (path p')
    | (Inl e, Inl e') \<Rightarrow> e = e'
    | _ \<Rightarrow> False)"
proof -
  let ?con = "example_con example_upper_key_count [example_sort_clause] NULL"
  have h1: "0 \<le> pgstrom_gpu_operator_cost example_env"
   and h2: "0 \<le> pgstrom_dpu_operator_cost example_env"
   and h3: "0 \<le> pgstrom_gpu_operator_ratio example_env"
   and h4: "0 \<le> pgstrom_dpu_operator_ratio example_env"
    by (simp_all add: example_env_fields)
  have h5: "0 \<le> per_tuple (cost (target_partial ?con))"
    by (simp add: example_con_def create_empty_pathtarget_def)
  have h6: "(1000::real) \<le> 2000" by simp
  from prepend_partial_cost_monotone[OF h1 h2 h3 h4 h5 h6] h1 h2 h3 h4 h5
  show ?thesis by simp
qed

text \<open>
  Claim C9. A cached entry for an aggregate over numeric is not returned while
  \<^verbatim>\<open>pg_strom.enable_numeric_aggfuncs\<close> is off, and a valid one is returned when it is
  on; neither lookup changes the state, so the entry stays in the table. The table a
  lookup leaves does not depend on the switch, also when the lookup populates an entry.
\<close>

theorem lookup_numeric_toggle:
  assumes "aggfunc_catalog_htable g = Some h"
      and "h fn_oid = Some entry"
      and "numeric_aware entry"
  shows "aggfunc_catalog_lookup_by_oid sc fn_oid (g\<lparr>pgstrom_enable_numeric_aggfuncs := False\<rparr>)
           = (Inr None, g\<lparr>pgstrom_enable_numeric_aggfuncs := False\<rparr>)
       \<and> (is_valid_entry entry \<longrightarrow>
            aggfunc_catalog_lookup_by_oid sc fn_oid (g\<lparr>pgstrom_enable_numeric_aggfuncs := True\<rparr>)
              = (Inr (Some entry), g\<lparr>pgstrom_enable_numeric_aggfuncs := True\<rparr>))
       \<and> aggfunc_catalog_htable (snd (aggfunc_catalog_lookup_by_oid sc any_oid
              (g\<lparr>pgstrom_enable_numeric_aggfuncs := b\<rparr>)))
           = aggfunc_catalog_htable (snd (aggfunc_catalog_lookup_by_oid sc any_oid g))"
  using assms lookup_table_ignores_toggle[where sc=sc and fn_oid=any_oid and g=g and b=b]
  by (simp add: aggfunc_catalog_lookup_by_oid_def aggfunc_catalog_entry_usable_def)

theorem lookup_numeric_toggle_witness:
  "aggfunc_catalog_htable example_globals_cached = Some [2114 \<mapsto> example_sum_numeric_entry] \<and>
   is_valid_entry example_sum_numeric_entry \<and> numeric_aware example_sum_numeric_entry \<and>
   aggfunc_catalog_lookup_by_oid example_syscache 2114
       (example_globals_cached\<lparr>pgstrom_enable_numeric_aggfuncs := False\<rparr>)
     = (Inr None, example_globals_cached\<lparr>pgstrom_enable_numeric_aggfuncs := False\<rparr>) \<and>
   aggfunc_catalog_lookup_by_oid example_syscache 2114
       (example_globals_cached\<lparr>pgstrom_enable_numeric_aggfuncs := True\<rparr>)
     = (Inr (Some example_sum_numeric_entry),
        example_globals_cached\<lparr>pgstrom_enable_numeric_aggfuncs := True\<rparr>) \<and>
   aggfunc_catalog_htable (snd (aggfunc_catalog_lookup_by_oid example_syscache 2108
       (example_globals_cached\<lparr>pgstrom_enable_numeric_aggfuncs := False\<rparr>)))
     = aggfunc_catalog_htable (snd (aggfunc_catalog_lookup_by_oid example_syscache 2108
         example_globals_cached))"
proof -
  have h1: "aggfunc_catalog_htable example_globals_cached = Some [2114 \<mapsto> example_sum_numeric_entry]"
    by (simp add: example_globals_cached_def)
  have h2: "[2114 \<mapsto> example_sum_numeric_entry] (2114::nat) = Some example_sum_numeric_entry"
    by simp
  have h3: "is_valid_entry example_sum_numeric_entry"
    by (simp add: example_sum_numeric_entry_def)
  have h4: "numeric_aware example_sum_numeric_entry"
    by (simp add: example_sum_numeric_entry_def)
  show ?thesis
    using h1 h3 h4 lookup_numeric_toggle[OF h1 h2 h4, where sc=example_syscache
                     and any_oid=2108 and b=False]
    by simp
qed

text \<open>
  Claim C10. For a query with grouping sets, or with a grouping clause that cannot be
  hashed, the entry point returns without an error and leaves the path list of the
  grouping relation, and the resolver cache, as they were.
\<close>

theorem add_custompath_bailout:
  assumes "groupingSets (parse rt) \<noteq> [] \<or> \<not> grouping_is_hashable (groupClause (parse rt))"
  shows "xpupreagg_add_custompath env rt input_rel group_rel extra kind cmethods g
           = (None, group_rel, g)"
  using assms by (simp add: xpupreagg_add_custompath_def)

theorem add_custompath_bailout_witness:
  "\<not> grouping_is_hashable [example_sort_clause\<lparr>hashable := False\<rparr>] \<and>
   xpupreagg_add_custompath example_env
     (example_root example_upper_key_count [example_sort_clause\<lparr>hashable := False\<rparr>] NULL)
     example_input_rel example_group_rel \<lparr>targetList = []\<rparr> 1 ''GpuPreAgg'' example_globals
   = (None, example_group_rel, example_globals)"
proof -
  have h: "groupingSets (parse (example_root example_upper_key_count
                                  [example_sort_clause\<lparr>hashable := False\<rparr>] NULL)) \<noteq> [] \<or>
           \<not> grouping_is_hashable (groupClause (parse (example_root example_upper_key_count
                                  [example_sort_clause\<lparr>hashable := False\<rparr>] NULL)))"
    by (simp add: example_root_def grouping_is_hashable_def)
  show ?thesis
    using add_custompath_bailout[OF h, of example_env example_input_rel example_group_rel
            "\<lparr>targetList = []\<rparr>" 1 "''GpuPreAgg''" example_globals]
    by (simp add: grouping_is_hashable_def)
qed

end
